theory Spec2Isabelle
  imports Complex_Main "HOL-Library.AList" "HOL-Library.Sublist"
begin

section \<open>Values\<close>

text \<open>
  The query builder of \<^verbatim>\<open>src/src/query.js\<close> runs on JavaScript values. A number is a
  finite value, NaN or one of the two infinities: \<^verbatim>\<open>isNumber\<close> of lodash accepts all four,
  and the claims about "finite numbers" are decided by exactly this distinction. Finite
  numbers are exact rationals here (rounding to a double, overflow to Infinity and the
  sign of zero are not modelled).

  Plain objects live in a heap and are named by their address (\<open>VObj\<close>), because the
  builder shares filter objects between queries by reference. Arrays are immutable
  values: no operation of the claims updates an array in place. Functions, regular
  expressions and class instances are not values of this universe; the operations that
  take a \<^verbatim>\<open>Query\<close> or a \<^verbatim>\<open>RegExp\<close> have an argument type of their own.
\<close>

datatype jsnum = Fin rat | NaN | PosInf | NegInf

datatype val =
    VUndef
  | VNull
  | VBool bool
  | VNum jsnum
  | VStr string
  | VArr "val list"
  | VObj nat

text \<open>
  Every \<^verbatim>\<open>throw new QueryError(msg)\<close> is \<open>QueryError msg\<close>. \<open>TypeError\<close> is what the
  language raises when a property of \<^verbatim>\<open>null\<close> or \<^verbatim>\<open>undefined\<close> is read, when a
  property of a primitive is assigned (the module is strict code) and when a value that is
  no function is called. \<open>RangeError\<close> is the overflow of the call stack. \<open>OutOfModel\<close>
  marks the steps this value universe cannot express: a named property stored on an array,
  a hole left in an array, and the conversion of a value that is no number to a position
  of \<^verbatim>\<open>slice\<close>.
\<close>

datatype error = QueryError string | TypeError | RangeError | OutOfModel

subsection \<open>The lodash predicates and truthiness\<close>

fun isArray :: "val \<Rightarrow> bool" where
  "isArray (VArr xs) = True"
| "isArray _ = False"

fun isNumber :: "val \<Rightarrow> bool" where
  "isNumber (VNum n) = True"
| "isNumber _ = False"

fun isString :: "val \<Rightarrow> bool" where
  "isString (VStr x) = True"
| "isString _ = False"

fun isObject :: "val \<Rightarrow> bool" where
  "isObject (VObj a) = True"
| "isObject (VArr xs) = True"
| "isObject _ = False"

fun truthy :: "val \<Rightarrow> bool" where
  "truthy VUndef = False"
| "truthy VNull = False"
| "truthy (VBool b) = b"
| "truthy (VNum n) = (n \<noteq> NaN \<and> n \<noteq> Fin 0)"
| "truthy (VStr x) = (x \<noteq> [])"
| "truthy (VArr xs) = True"
| "truthy (VObj a) = True"

subsection \<open>parseFloat\<close>

text \<open>
  \<^verbatim>\<open>parseFloat\<close> skips leading white space and reads the longest prefix that is a
  decimal literal: an optional sign, then \<^verbatim>\<open>Infinity\<close> or digits with an optional
  fraction and an optional exponent. A string with no such prefix gives NaN.
\<close>

definition is_space :: "char \<Rightarrow> bool" where
  "is_space c = (c \<in> set [CHR '' '', CHR 0x09, CHR 0x0A, CHR 0x0B, CHR 0x0C, CHR 0x0D])"

definition is_digit :: "char \<Rightarrow> bool" where
  "is_digit c = (c \<in> set ''0123456789'')"

definition digits_val :: "string \<Rightarrow> nat" where
  "digits_val ds = foldl (\<lambda>a c. 10 * a + (of_char c - 48)) 0 ds"

definition scale10 :: "rat \<Rightarrow> int \<Rightarrow> rat" where
  "scale10 m e = (if 0 \<le> e then m * 10 ^ nat e else m / 10 ^ nat (- e))"

definition exponent_part :: "string \<Rightarrow> int" where
  "exponent_part r =
     (if take 1 r = ''e'' \<or> take 1 r = ''E'' then
        (if take 1 (drop 1 r) = ''-'' then - int (digits_val (takeWhile is_digit (drop 2 r)))
         else if take 1 (drop 1 r) = ''+'' then int (digits_val (takeWhile is_digit (drop 2 r)))
         else int (digits_val (takeWhile is_digit (drop 1 r))))
      else 0)"

definition parseFloat :: "string \<Rightarrow> jsnum" where
  "parseFloat str =
     (let t = dropWhile is_space str;
          neg = (take 1 t = ''-'');
          u = (if take 1 t = ''-'' \<or> take 1 t = ''+'' then drop 1 t else t);
          ip = takeWhile is_digit u;
          r1 = dropWhile is_digit u;
          fp = (if take 1 r1 = ''.'' then takeWhile is_digit (drop 1 r1) else []);
          r2 = (if take 1 r1 = ''.'' then dropWhile is_digit (drop 1 r1) else r1);
          m = scale10 (of_nat (digits_val (ip @ fp))) (exponent_part r2 - int (length fp))
      in if take 8 u = ''Infinity'' then (if neg then NegInf else PosInf)
         else if ip = [] \<and> fp = [] then NaN
         else Fin (if neg then - m else m))"

section \<open>Objects, queries and the heap\<close>

text \<open>
  A plain object is the list of its own properties in insertion order, which is the order
  \<^verbatim>\<open>Object.keys\<close> reports for names that are not array indices. A property read sees
  own properties only; names inherited from \<^verbatim>\<open>Object.prototype\<close> are outside the model.
\<close>

type_synonym obj = "(string \<times> val) list"

definition get_prop :: "obj \<Rightarrow> string \<Rightarrow> val" where
  "get_prop ob k = (case map_of ob k of Some v \<Rightarrow> v | None \<Rightarrow> VUndef)"

definition set_prop :: "obj \<Rightarrow> string \<Rightarrow> val \<Rightarrow> obj" where
  "set_prop ob k v = AList.update k v ob"

definition keys_of :: "obj \<Rightarrow> string list" where
  "keys_of ob = map fst ob"

text \<open>
  An instance of \<^verbatim>\<open>Query\<close>: the five backing fields behind the accessors, \<^verbatim>\<open>_parent\<close>
  (\<open>None\<close> for \<^verbatim>\<open>null\<close> and \<^verbatim>\<open>undefined\<close>), and the property \<^verbatim>\<open>parent\<close> that \<^verbatim>\<open>join\<close>
  assigns. The two are different properties of the instance: the class declares no
  accessor named \<^verbatim>\<open>parent\<close>.
\<close>

record query =
  u_fields :: val
  u_filter :: val
  u_sort :: val
  u_limit :: val
  u_skip :: val
  u_parent :: "nat option"
  parent :: "nat option"

record state =
  objs :: "obj list"
  queries :: "query list"

definition obj_at :: "state \<Rightarrow> nat \<Rightarrow> obj" where
  "obj_at s a = (if a < length (objs s) then objs s ! a else [])"

definition upd_query :: "state \<Rightarrow> nat \<Rightarrow> (query \<Rightarrow> query) \<Rightarrow> state" where
  "upd_query s q f = s\<lparr>queries := (queries s)[q := f (queries s ! q)]\<rparr>"

definition blank_query :: query where
  "blank_query = \<lparr>u_fields = VUndef, u_filter = VUndef, u_sort = VUndef, u_limit = VUndef,
     u_skip = VUndef, u_parent = None, parent = None\<rparr>"

text \<open>
  A method that calls itself on \<^verbatim>\<open>this._parent\<close> recurses along the parent chain. The
  model bounds the recursion by one frame more than there are instances, which is enough
  for every chain without a cycle; a chain with a cycle ends in \<open>RangeError\<close>, as the
  overflowing call stack does.
\<close>

definition call_depth :: "state \<Rightarrow> nat" where
  "call_depth s = Suc (length (queries s))"

section \<open>The accessors\<close>

text \<open>
  The setters \<^verbatim>\<open>fields\<close>, \<^verbatim>\<open>filter\<close>, \<^verbatim>\<open>sort\<close>, \<^verbatim>\<open>limit\<close> and \<^verbatim>\<open>skip\<close> of
  \<^verbatim>\<open>query.js\<close>, lines 98 to 198. Each getter returns its backing field.
\<close>

primrec set_fields_at :: "nat \<Rightarrow> state \<Rightarrow> nat \<Rightarrow> val \<Rightarrow> (error + unit) \<times> state" where
  "set_fields_at 0 s q v = (Inl RangeError, s)"
| "set_fields_at (Suc d) s q v =
     (let f = (if truthy v then v else VArr []) in
      if \<not> isArray f then (Inl (QueryError ''fields must be an Array''), s)
      else case u_parent (queries s ! q) of
             Some p \<Rightarrow> set_fields_at d s p f
           | None \<Rightarrow> (Inr (), upd_query s q (\<lambda>r. r\<lparr>u_fields := f\<rparr>)))"

definition set_fields :: "state \<Rightarrow> nat \<Rightarrow> val \<Rightarrow> (error + unit) \<times> state" where
  "set_fields s q v = set_fields_at (call_depth s) s q v"

definition set_filter :: "state \<Rightarrow> nat \<Rightarrow> val \<Rightarrow> state" where
  "set_filter s q v = upd_query s q (\<lambda>r. r\<lparr>u_filter := v\<rparr>)"

text \<open>
  With a parent the setter runs \<^verbatim>\<open>this._parent.sort(sort)\<close>: it calls the value of the
  parent's \<^verbatim>\<open>sort\<close> accessor, which is no function. Without one, a falsy argument
  stores a fresh empty object.
\<close>

definition set_sort :: "state \<Rightarrow> nat \<Rightarrow> val \<Rightarrow> (error + unit) \<times> state" where
  "set_sort s q v =
     (if truthy v \<and> \<not> isObject v then (Inl (QueryError ''sort must an Object''), s)
      else case u_parent (queries s ! q) of
             Some p \<Rightarrow> (Inl TypeError, s)
           | None \<Rightarrow>
               if truthy v then (Inr (), upd_query s q (\<lambda>r. r\<lparr>u_sort := v\<rparr>))
               else (Inr (), upd_query (s\<lparr>objs := objs s @ [[]]\<rparr>) q
                               (\<lambda>r. r\<lparr>u_sort := VObj (length (objs s))\<rparr>)))"

primrec set_limit_at :: "nat \<Rightarrow> state \<Rightarrow> nat \<Rightarrow> val \<Rightarrow> (error + unit) \<times> state" where
  "set_limit_at 0 s q v = (Inl RangeError, s)"
| "set_limit_at (Suc d) s q v =
     (let l = (case v of VStr x \<Rightarrow> VNum (parseFloat x) | _ \<Rightarrow> v) in
      if truthy l \<and> \<not> isNumber l then (Inl (QueryError ''limit must be a number''), s)
      else case u_parent (queries s ! q) of
             Some p \<Rightarrow> set_limit_at d s p l
           | None \<Rightarrow> (Inr (), upd_query s q (\<lambda>r. r\<lparr>u_limit := l\<rparr>)))"

definition set_limit :: "state \<Rightarrow> nat \<Rightarrow> val \<Rightarrow> (error + unit) \<times> state" where
  "set_limit s q v = set_limit_at (call_depth s) s q v"

text \<open>
  \<^verbatim>\<open>set skip(skip = 0)\<close>: the default replaces \<^verbatim>\<open>undefined\<close> only. With a parent the
  setter runs \<^verbatim>\<open>this._parent.skip(skip)\<close>, a call of a number.
\<close>

definition set_skip :: "state \<Rightarrow> nat \<Rightarrow> val \<Rightarrow> (error + unit) \<times> state" where
  "set_skip s q v =
     (let v0 = (if v = VUndef then VNum (Fin 0) else v);
          k = (case v0 of VStr x \<Rightarrow> VNum (parseFloat x) | _ \<Rightarrow> v0) in
      if \<not> isNumber k then (Inl (QueryError ''skip must be a number''), s)
      else case u_parent (queries s ! q) of
             Some p \<Rightarrow> (Inl TypeError, s)
           | None \<Rightarrow> (Inr (), upd_query s q (\<lambda>r. r\<lparr>u_skip := k\<rparr>)))"

section \<open>The constructor and the canonical snapshot\<close>

text \<open>
  The constructor (lines 35 to 86), \<^verbatim>\<open>toPlainObject\<close> (lines 817 to 832) and
  \<^verbatim>\<open>toJSON\<close> (lines 840 to 842).
\<close>

text \<open>
  \<^verbatim>\<open>assign(defaults, options)\<close> takes every own property of \<open>options\<close>, also one whose
  value is \<^verbatim>\<open>undefined\<close>; the literal of the defaults allocates a fresh filter and a
  fresh sort object. The five assignments go through the setters while \<^verbatim>\<open>this._parent\<close>
  is still \<^verbatim>\<open>undefined\<close>, then \<^verbatim>\<open>_parent\<close> is set to \<^verbatim>\<open>null\<close>. A constructor that
  throws leaves no instance behind, so the state is the one before the call.
\<close>

definition option_or :: "obj \<Rightarrow> string \<Rightarrow> val \<Rightarrow> val" where
  "option_or options k d = (case map_of options k of Some v \<Rightarrow> v | None \<Rightarrow> d)"

definition constructor :: "state \<Rightarrow> obj \<Rightarrow> (error + nat) \<times> state" where
  "constructor s options =
     (let f0 = length (objs s);
          q = length (queries s);
          a = s\<lparr>objs := objs s @ [[], []], queries := queries s @ [blank_query]\<rparr>
      in case set_fields a q (option_or options ''fields'' (VArr [])) of
           (Inl e, _) \<Rightarrow> (Inl e, s)
         | (Inr _, b) \<Rightarrow>
       (case set_sort (set_filter b q (option_or options ''filter'' (VObj f0))) q
                      (option_or options ''sort'' (VObj (Suc f0))) of
           (Inl e, _) \<Rightarrow> (Inl e, s)
         | (Inr _, c) \<Rightarrow>
       (case set_limit c q (option_or options ''limit'' VNull) of
           (Inl e, _) \<Rightarrow> (Inl e, s)
         | (Inr _, d) \<Rightarrow>
       (case set_skip d q (option_or options ''skip'' (VNum (Fin 0))) of
           (Inl e, _) \<Rightarrow> (Inl e, s)
         | (Inr _, e) \<Rightarrow> (Inr q, upd_query e q (\<lambda>r. r\<lparr>u_parent := None\<rparr>))))))"

primrec toPlainObject_at :: "nat \<Rightarrow> state \<Rightarrow> nat \<Rightarrow> error + obj" where
  "toPlainObject_at 0 s q = Inl RangeError"
| "toPlainObject_at (Suc d) s q =
     (case u_parent (queries s ! q) of
        Some p \<Rightarrow> toPlainObject_at d s p
      | None \<Rightarrow>
          Inr [(''fields'', u_fields (queries s ! q)),
               (''filter'', u_filter (queries s ! q)),
               (''sort'', u_sort (queries s ! q)),
               (''skip'', u_skip (queries s ! q)),
               (''limit'', u_limit (queries s ! q))])"

definition toPlainObject :: "state \<Rightarrow> nat \<Rightarrow> error + obj" where
  "toPlainObject s q = toPlainObject_at (call_depth s) s q"

definition toJSON :: "state \<Rightarrow> nat \<Rightarrow> error + obj" where
  "toJSON s q = toPlainObject s q"

section \<open>Building the filter\<close>

text \<open>
  \<^verbatim>\<open>addFilter\<close> (lines 662 to 669) and the methods that only validate their argument
  and call it: lines 224 to 365, \<^verbatim>\<open>exists\<close> (427), \<^verbatim>\<open>mod\<close> (444), \<^verbatim>\<open>matches\<close> (477),
  \<^verbatim>\<open>near\<close> (525) and \<^verbatim>\<open>size\<close> (609).
\<close>

text \<open>
  \<^verbatim>\<open>addFilter\<close> writes into the object behind \<^verbatim>\<open>this.filter\<close>, whoever else holds
  that object; it never looks at \<^verbatim>\<open>_parent\<close>. A filter that is \<^verbatim>\<open>null\<close>, \<^verbatim>\<open>undefined\<close>
  or a primitive cannot take the property.
\<close>

definition addFilter :: "state \<Rightarrow> nat \<Rightarrow> string \<Rightarrow> string \<Rightarrow> val \<Rightarrow> (error + nat) \<times> state" where
  "addFilter s q field condition values =
     (case u_filter (queries s ! q) of
        VObj f \<Rightarrow>
          (case get_prop (obj_at s f) field of
             VObj m \<Rightarrow>
               (Inr q, s\<lparr>objs := (objs s)[m := set_prop (obj_at s m) condition values]\<rparr>)
           | VArr xs \<Rightarrow> (Inl OutOfModel, s)
           | _ \<Rightarrow>
               (Inr q, s\<lparr>objs := (objs s)[f := set_prop (obj_at s f) field (VObj (length (objs s)))]
                                     @ [[(condition, values)]]\<rparr>))
      | VArr xs \<Rightarrow> (Inl OutOfModel, s)
      | _ \<Rightarrow> (Inl TypeError, s))"

definition wrap_array :: "val \<Rightarrow> val" where
  "wrap_array values = (if isArray values then values else VArr [values])"

definition equalTo :: "state \<Rightarrow> nat \<Rightarrow> string \<Rightarrow> val \<Rightarrow> (error + nat) \<times> state" where
  "equalTo s q field v = addFilter s q field ''$eq'' v"

definition contains :: "state \<Rightarrow> nat \<Rightarrow> string \<Rightarrow> val \<Rightarrow> (error + nat) \<times> state" where
  "contains s q field values = addFilter s q field ''$in'' (wrap_array values)"

definition containsAll :: "state \<Rightarrow> nat \<Rightarrow> string \<Rightarrow> val \<Rightarrow> (error + nat) \<times> state" where
  "containsAll s q field values = addFilter s q field ''$all'' (wrap_array values)"

definition compare_filter :: "string \<Rightarrow> state \<Rightarrow> nat \<Rightarrow> string \<Rightarrow> val \<Rightarrow> (error + nat) \<times> state" where
  "compare_filter condition s q field v =
     (if \<not> isNumber v \<and> \<not> isString v
      then (Inl (QueryError ''You must supply a number or string.''), s)
      else addFilter s q field condition v)"

definition greaterThan_q :: "state \<Rightarrow> nat \<Rightarrow> string \<Rightarrow> val \<Rightarrow> (error + nat) \<times> state" where
  "greaterThan_q = compare_filter ''$gt''"

definition greaterThanOrEqualTo :: "state \<Rightarrow> nat \<Rightarrow> string \<Rightarrow> val \<Rightarrow> (error + nat) \<times> state" where
  "greaterThanOrEqualTo = compare_filter ''$gte''"

definition lessThan_q :: "state \<Rightarrow> nat \<Rightarrow> string \<Rightarrow> val \<Rightarrow> (error + nat) \<times> state" where
  "lessThan_q = compare_filter ''$lt''"

definition lessThanOrEqualTo :: "state \<Rightarrow> nat \<Rightarrow> string \<Rightarrow> val \<Rightarrow> (error + nat) \<times> state" where
  "lessThanOrEqualTo = compare_filter ''$lte''"

definition notEqualTo :: "state \<Rightarrow> nat \<Rightarrow> string \<Rightarrow> val \<Rightarrow> (error + nat) \<times> state" where
  "notEqualTo s q field v = addFilter s q field ''$ne'' v"

definition notContainedIn :: "state \<Rightarrow> nat \<Rightarrow> string \<Rightarrow> val \<Rightarrow> (error + nat) \<times> state" where
  "notContainedIn s q field values = addFilter s q field ''$nin'' (wrap_array values)"

definition exists_q :: "state \<Rightarrow> nat \<Rightarrow> string \<Rightarrow> val \<Rightarrow> (error + nat) \<times> state" where
  "exists_q s q field flag =
     addFilter s q field ''$exists''
       (if flag = VUndef then VBool True else if truthy flag then flag else VBool False)"

text \<open>
  \<^verbatim>\<open>mod(field, divisor, remainder = 0)\<close>: a string is parsed, and the check after that is
  \<^verbatim>\<open>isNumber\<close>, which NaN and the infinities pass.
\<close>

definition coerce_number :: "val \<Rightarrow> val" where
  "coerce_number v = (case v of VStr x \<Rightarrow> VNum (parseFloat x) | _ \<Rightarrow> v)"

definition mod_q :: "state \<Rightarrow> nat \<Rightarrow> string \<Rightarrow> val \<Rightarrow> val \<Rightarrow> (error + nat) \<times> state" where
  "mod_q s q field divisor remainder =
     (let d = coerce_number divisor;
          r = coerce_number (if remainder = VUndef then VNum (Fin 0) else remainder) in
      if \<not> isNumber d then (Inl (QueryError ''divisor must be a number''), s)
      else if \<not> isNumber r then (Inl (QueryError ''remainder must be a number''), s)
      else addFilter s q field ''$mod'' (VArr [d, r]))"

definition size_q :: "state \<Rightarrow> nat \<Rightarrow> string \<Rightarrow> val \<Rightarrow> (error + nat) \<times> state" where
  "size_q s q field n =
     (if \<not> isNumber (coerce_number n) then (Inl (QueryError ''size must be a number''), s)
      else addFilter s q field ''$size'' (coerce_number n))"

subsection \<open>Regular expressions\<close>

text \<open>
  A \<^verbatim>\<open>RegExp\<close> instance is its \<^verbatim>\<open>source\<close> and the two flags the method reads. The
  argument is such an instance, or any other value, which the method hands to
  \<^verbatim>\<open>new RegExp\<close>; that constructor belongs to the language and is a parameter. The
  options are the own properties of the options object (none when it is omitted).
\<close>

record regexp =
  source :: string
  ignoreCase :: bool
  multiline :: bool

definition matches ::
  "(val \<Rightarrow> error + regexp) \<Rightarrow> state \<Rightarrow> nat \<Rightarrow> string \<Rightarrow> regexp + val \<Rightarrow> obj \<Rightarrow> (error + nat) \<times> state" where
  "matches newRegExp s q field regExp options =
     (case (case regExp of Inl r \<Rightarrow> Inr r | Inr v \<Rightarrow> newRegExp v) of
        Inl e \<Rightarrow> (Inl e, s)
      | Inr r \<Rightarrow>
          if (ignoreCase r \<or> truthy (get_prop options ''ignoreCase''))
             \<and> get_prop options ''ignoreCase'' \<noteq> VBool False
          then (Inl (QueryError ''ignoreCase glag is not supported.''), s)
          else if take 1 (source r) \<noteq> ''^''
          then (Inl (QueryError
            ''regExp must have `^` at the beginning of the expression to make it an anchored expression.''), s)
          else
            let flags =
                  (if (multiline r \<or> truthy (get_prop options ''multiline''))
                      \<and> get_prop options ''multiline'' \<noteq> VBool False then ''m'' else []) @
                  (if truthy (get_prop options ''extended'') then ''x'' else []) @
                  (if truthy (get_prop options ''dotMatchesAll'') then ''s'' else [])
            in case addFilter s q field ''$regex'' (VStr (source r)) of
                 (Inl e, s1) \<Rightarrow> (Inl e, s1)
               | (Inr result, s1) \<Rightarrow>
                   if flags \<noteq> [] then
                     (case addFilter s1 q field ''$options'' (VStr flags) of
                        (Inl e, s2) \<Rightarrow> (Inl e, s2)
                      | (Inr _, s2) \<Rightarrow> (Inr result, s2))
                   else (Inr result, s1))"

subsection \<open>Geo filters\<close>

definition nth_or_undef :: "val list \<Rightarrow> nat \<Rightarrow> val" where
  "nth_or_undef xs i = (if i < length xs then xs ! i else VUndef)"

definition near :: "state \<Rightarrow> nat \<Rightarrow> string \<Rightarrow> val \<Rightarrow> val \<Rightarrow> (error + nat) \<times> state" where
  "near s q field coord maxDistance =
     (case coord of
        VArr xs \<Rightarrow>
          if \<not> isNumber (nth_or_undef xs 0)
          then (Inl (QueryError ''coord must be a [number, number]''), s)
          else if \<not> isNumber (nth_or_undef xs 1)
          then (Inl (QueryError ''coord must be a [number, number]''), s)
          else
            (case addFilter s q field ''$nearSphere'' (VArr [nth_or_undef xs 0, nth_or_undef xs 1]) of
               (Inl e, s1) \<Rightarrow> (Inl e, s1)
             | (Inr result, s1) \<Rightarrow>
                 if truthy maxDistance then
                   (case addFilter s1 q field ''$maxDistance'' maxDistance of
                      (Inl e, s2) \<Rightarrow> (Inl e, s2)
                    | (Inr _, s2) \<Rightarrow> (Inr result, s2))
                 else (Inr result, s1))
      | _ \<Rightarrow> (Inl (QueryError ''coord must be a [number, number]''), s))"

section \<open>Joining queries\<close>

text \<open>
  \<^verbatim>\<open>join\<close> (lines 680 to 723) and its three callers \<^verbatim>\<open>and\<close>, \<^verbatim>\<open>nor\<close>, \<^verbatim>\<open>or\<close>
  (lines 375 to 416).
\<close>

text \<open>
  An argument of \<^verbatim>\<open>and\<close>, \<^verbatim>\<open>nor\<close>, \<^verbatim>\<open>or\<close> is an instance of \<^verbatim>\<open>Query\<close> or some other
  value. An object that is no instance is wrapped by the constructor (an array has no own
  property the constructor reads); anything else is refused. Each argument contributes
  \<^verbatim>\<open>query.toJSON().filter\<close>, the filter object itself and no copy of it.
\<close>

datatype jarg = AQuery nat | AValue val

fun join_args :: "state \<Rightarrow> jarg list \<Rightarrow> (error + val list) \<times> state" where
  "join_args s [] = (Inr [], s)"
| "join_args s (a # rest) =
     (case (case a of
              AQuery r \<Rightarrow> (Inr r, s)
            | AValue v \<Rightarrow>
                if isObject v
                then constructor s (case v of VObj b \<Rightarrow> obj_at s b | _ \<Rightarrow> [])
                else (Inl (QueryError ''query argument must be of type: Kinvey.Query[] or Object[].''), s)) of
        (Inl e, s1) \<Rightarrow> (Inl e, s1)
      | (Inr r, s1) \<Rightarrow>
          (case toJSON s1 r of
             Inl e \<Rightarrow> (Inl e, s1)
           | Inr j \<Rightarrow>
               (case join_args s1 rest of
                  (Inl e, s2) \<Rightarrow> (Inl e, s2)
                | (Inr fs, s2) \<Rightarrow> (Inr (get_prop j ''filter'' # fs), s2))))"

text \<open>
  With no argument left, \<^verbatim>\<open>join\<close> creates an empty query, takes its filter as the only
  right-hand operand and runs \<^verbatim>\<open>that.parent = this\<close>.
\<close>

definition open_scope :: "state \<Rightarrow> nat \<Rightarrow> val list \<Rightarrow> (error + nat \<times> val list) \<times> state" where
  "open_scope s q fs =
     (if fs = [] then
        (case constructor s [] of
           (Inl e, s1) \<Rightarrow> (Inl e, s1)
         | (Inr that, s1) \<Rightarrow>
             (case toJSON s1 that of
                Inl e \<Rightarrow> (Inl e, s1)
              | Inr j \<Rightarrow>
                  (Inr (that, [get_prop j ''filter'']),
                   upd_query s1 that (\<lambda>r. r\<lparr>parent := Some q\<rparr>))))
      else (Inr (q, fs), s))"

text \<open>
  \<^verbatim>\<open>currentQuery\<close> is allocated first. The members of \<^verbatim>\<open>this.filter\<close> move into it in
  their order, and the emptied filter object gets the single property
  \<^verbatim>\<open>[currentQuery].concat(queries)\<close> under the operator.
\<close>

definition join :: "state \<Rightarrow> nat \<Rightarrow> string \<Rightarrow> jarg list \<Rightarrow> (error + nat) \<times> state" where
  "join s q operator qs =
     (let c = length (objs s) in
      case join_args (s\<lparr>objs := objs s @ [[]]\<rparr>) qs of
        (Inl e, s1) \<Rightarrow> (Inl e, s1)
      | (Inr fs, s1) \<Rightarrow>
          (case open_scope s1 q fs of
             (Inl e, s2) \<Rightarrow> (Inl e, s2)
           | (Inr (that, fs'), s2) \<Rightarrow>
               (case u_filter (queries s2 ! q) of
                  VObj f \<Rightarrow>
                    (Inr that,
                     s2\<lparr>objs := (objs s2)[c := obj_at s2 f, f := [(operator, VArr (VObj c # fs'))]]\<rparr>)
                | VArr xs \<Rightarrow> (Inl OutOfModel, s2)
                | _ \<Rightarrow> (Inl TypeError, s2))))"

definition and_q :: "state \<Rightarrow> nat \<Rightarrow> jarg list \<Rightarrow> (error + nat) \<times> state" where
  "and_q s q qs = join s q ''$and'' qs"

text \<open>
  \<^verbatim>\<open>this._parent.filter.$and\<close>: the property read fails on a parent filter that is
  \<^verbatim>\<open>null\<close> or \<^verbatim>\<open>undefined\<close>; a primitive or an array has no such property.
\<close>

primrec nor_at :: "nat \<Rightarrow> state \<Rightarrow> nat \<Rightarrow> jarg list \<Rightarrow> (error + nat) \<times> state" where
  "nor_at 0 s q qs = (Inl RangeError, s)"
| "nor_at (Suc d) s q qs =
     (case u_parent (queries s ! q) of
        Some p \<Rightarrow>
          (case u_filter (queries s ! p) of
             VObj f \<Rightarrow>
               if truthy (get_prop (obj_at s f) ''$and'') then nor_at d s p qs
               else join s q ''$nor'' qs
           | VUndef \<Rightarrow> (Inl TypeError, s)
           | VNull \<Rightarrow> (Inl TypeError, s)
           | _ \<Rightarrow> join s q ''$nor'' qs)
      | None \<Rightarrow> join s q ''$nor'' qs)"

definition nor_q :: "state \<Rightarrow> nat \<Rightarrow> jarg list \<Rightarrow> (error + nat) \<times> state" where
  "nor_q s q qs = nor_at (call_depth s) s q qs"

primrec or_at :: "nat \<Rightarrow> state \<Rightarrow> nat \<Rightarrow> jarg list \<Rightarrow> (error + nat) \<times> state" where
  "or_at 0 s q qs = (Inl RangeError, s)"
| "or_at (Suc d) s q qs =
     (case u_parent (queries s ! q) of
        Some p \<Rightarrow> or_at d s p qs
      | None \<Rightarrow> join s q ''$or'' qs)"

definition or_q :: "state \<Rightarrow> nat \<Rightarrow> jarg list \<Rightarrow> (error + nat) \<times> state" where
  "or_q s q qs = or_at (call_depth s) s q qs"

section \<open>Sorting, geo boxes and polygons\<close>

text \<open>
  \<^verbatim>\<open>ascending\<close> and \<^verbatim>\<open>descending\<close> (lines 627 to 652), \<^verbatim>\<open>withinBox\<close> (552 to 571)
  and \<^verbatim>\<open>withinPolygon\<close> (583 to 597).
\<close>

text \<open>\<^verbatim>\<open>this.sort[field] = 1\<close>: an assignment into the object behind the \<^verbatim>\<open>sort\<close> accessor.\<close>

definition sort_direction :: "state \<Rightarrow> nat \<Rightarrow> string \<Rightarrow> rat \<Rightarrow> (error + nat) \<times> state" where
  "sort_direction s q field n =
     (case u_sort (queries s ! q) of
        VObj a \<Rightarrow> (Inr q, s\<lparr>objs := (objs s)[a := set_prop (obj_at s a) field (VNum (Fin n))]\<rparr>)
      | VArr xs \<Rightarrow> (Inl OutOfModel, s)
      | _ \<Rightarrow> (Inl TypeError, s))"

primrec ascending_at :: "nat \<Rightarrow> state \<Rightarrow> nat \<Rightarrow> string \<Rightarrow> (error + nat) \<times> state" where
  "ascending_at 0 s q field = (Inl RangeError, s)"
| "ascending_at (Suc d) s q field =
     (case u_parent (queries s ! q) of
        Some p \<Rightarrow>
          (case ascending_at d s p field of
             (Inl e, s1) \<Rightarrow> (Inl e, s1)
           | (Inr _, s1) \<Rightarrow> (Inr q, s1))
      | None \<Rightarrow> sort_direction s q field 1)"

definition ascending :: "state \<Rightarrow> nat \<Rightarrow> string \<Rightarrow> (error + nat) \<times> state" where
  "ascending s q field = ascending_at (call_depth s) s q field"

primrec descending_at :: "nat \<Rightarrow> state \<Rightarrow> nat \<Rightarrow> string \<Rightarrow> (error + nat) \<times> state" where
  "descending_at 0 s q field = (Inl RangeError, s)"
| "descending_at (Suc d) s q field =
     (case u_parent (queries s ! q) of
        Some p \<Rightarrow>
          (case descending_at d s p field of
             (Inl e, s1) \<Rightarrow> (Inl e, s1)
           | (Inr _, s1) \<Rightarrow> (Inr q, s1))
      | None \<Rightarrow> sort_direction s q field (- 1))"

definition descending :: "state \<Rightarrow> nat \<Rightarrow> string \<Rightarrow> (error + nat) \<times> state" where
  "descending s q field = descending_at (call_depth s) s q field"

text \<open>
  \<^verbatim>\<open>parseFloat\<close> of a value that is no string parses its string form: a number gives
  itself, an array gives what its first element gives (the separating comma ends every
  literal), and the string forms of the other values hold no literal.
\<close>

fun parseFloat_val :: "val \<Rightarrow> jsnum" where
  "parseFloat_val (VStr x) = parseFloat x"
| "parseFloat_val (VNum n) = n"
| "parseFloat_val (VArr (x # xs)) = parseFloat_val x"
| "parseFloat_val _ = NaN"

fun show_nat :: "nat \<Rightarrow> string" where
  "show_nat n =
     (if n < 10 then [char_of (48 + n)] else show_nat (n div 10) @ [char_of (48 + n mod 10)])"

text \<open>\<^verbatim>\<open>v[i]\<close> for an index \<open>i\<close>.\<close>

definition index_of :: "state \<Rightarrow> val \<Rightarrow> nat \<Rightarrow> error + val" where
  "index_of s v i =
     (case v of
        VArr xs \<Rightarrow> Inr (nth_or_undef xs i)
      | VStr x \<Rightarrow> Inr (if i < length x then VStr [x ! i] else VUndef)
      | VObj a \<Rightarrow> Inr (get_prop (obj_at s a) (show_nat i))
      | VUndef \<Rightarrow> Inl TypeError
      | VNull \<Rightarrow> Inl TypeError
      | _ \<Rightarrow> Inr VUndef)"

text \<open>
  The operands of \<^verbatim>\<open>||\<close> in the checks are tested one after the other.
  \<^verbatim>\<open>withinBox\<close> also overwrites the four entries of the caller's two arrays with the
  parsed numbers; arrays are values here, so that write to the arguments is not modelled.
\<close>

definition withinBox :: "state \<Rightarrow> nat \<Rightarrow> string \<Rightarrow> val \<Rightarrow> val \<Rightarrow> (error + nat) \<times> state" where
  "withinBox s q field bottomLeftCoord upperRightCoord =
     (case bottomLeftCoord of
        VArr b \<Rightarrow>
          if \<not> truthy (nth_or_undef b 0)
          then (Inl (QueryError ''bottomLeftCoord must be a [number, number]''), s)
          else if \<not> truthy (nth_or_undef b 1)
          then (Inl (QueryError ''bottomLeftCoord must be a [number, number]''), s)
          else
            (case upperRightCoord of
               VArr u \<Rightarrow>
                 if \<not> truthy (nth_or_undef u 0)
                 then (Inl (QueryError ''upperRightCoord must be a [number, number]''), s)
                 else if \<not> truthy (nth_or_undef u 1)
                 then (Inl (QueryError ''upperRightCoord must be a [number, number]''), s)
                 else
                   addFilter
                     (s\<lparr>objs := objs s @
                        [[(''$box'',
                           VArr [VArr [VNum (parseFloat_val (nth_or_undef b 0)),
                                       VNum (parseFloat_val (nth_or_undef b 1))],
                                 VArr [VNum (parseFloat_val (nth_or_undef u 0)),
                                       VNum (parseFloat_val (nth_or_undef u 1))]])]]\<rparr>)
                     q field ''$within'' (VObj (length (objs s)))
             | _ \<Rightarrow> (Inl (QueryError ''upperRightCoord must be a [number, number]''), s))
      | _ \<Rightarrow> (Inl (QueryError ''bottomLeftCoord must be a [number, number]''), s))"

fun polygon_points :: "state \<Rightarrow> val list \<Rightarrow> error + val list" where
  "polygon_points s [] = Inr []"
| "polygon_points s (coord # rest) =
     (case index_of s coord 0 of
        Inl e \<Rightarrow> Inl e
      | Inr c0 \<Rightarrow>
          if \<not> truthy c0 then Inl (QueryError ''coords argument must be [number, number]'')
          else
            (case index_of s coord 1 of
               Inl e \<Rightarrow> Inl e
             | Inr c1 \<Rightarrow>
                 if \<not> truthy c1 then Inl (QueryError ''coords argument must be [number, number]'')
                 else
                   (case polygon_points s rest of
                      Inl e \<Rightarrow> Inl e
                    | Inr ps \<Rightarrow>
                        Inr (VArr [VNum (parseFloat_val c0), VNum (parseFloat_val c1)] # ps))))"

definition withinPolygon :: "state \<Rightarrow> nat \<Rightarrow> string \<Rightarrow> val \<Rightarrow> (error + nat) \<times> state" where
  "withinPolygon s q field coords =
     (case coords of
        VArr cs \<Rightarrow>
          if 3 < length cs then (Inl (QueryError ''coords must be [[number, number]]''), s)
          else
            (case polygon_points s cs of
               Inl e \<Rightarrow> (Inl e, s)
             | Inr ps \<Rightarrow>
                 addFilter (s\<lparr>objs := objs s @ [[(''$polygon'', VArr ps)]]\<rparr>)
                   q field ''$within'' (VObj (length (objs s))))
      | _ \<Rightarrow> (Inl (QueryError ''coords must be [[number, number]]''), s))"

section \<open>Offline support\<close>

text \<open>
  \<^verbatim>\<open>isSupportedOffline\<close> (lines 204 to 213) over the list \<^verbatim>\<open>unsupportedFilters\<close>
  (line 13).
\<close>

text \<open>
  \<^verbatim>\<open>findKey(object, path)\<close> of lodash, with the property shorthand: the first own key
  whose value has a truthy property \<open>path\<close>; the value \<^verbatim>\<open>undefined\<close> when there is
  none. The paths are operator names, which only a plain object can hold.
\<close>

definition property :: "state \<Rightarrow> string \<Rightarrow> val \<Rightarrow> val" where
  "property s path v = (case v of VObj a \<Rightarrow> get_prop (obj_at s a) path | _ \<Rightarrow> VUndef)"

definition findKey :: "state \<Rightarrow> val \<Rightarrow> string \<Rightarrow> string option" where
  "findKey s ob path =
     (case ob of
        VObj a \<Rightarrow>
          find (\<lambda>k. truthy (property s path (get_prop (obj_at s a) k))) (keys_of (obj_at s a))
      | VArr xs \<Rightarrow>
          map_option show_nat (find (\<lambda>i. truthy (property s path (xs ! i))) [0..<length xs])
      | _ \<Rightarrow> None)"

definition unsupportedFilters :: "string list" where
  "unsupportedFilters = [''$nearSphere'']"

text \<open>
  \<^verbatim>\<open>supported = !findKey(this.filter, filter); return supported;\<close> inside \<^verbatim>\<open>forEach\<close>,
  which stops at the first callback that returns \<^verbatim>\<open>false\<close>. The negation is applied to
  the key that was found: \<^verbatim>\<open>undefined\<close> and the empty string negate to \<^verbatim>\<open>true\<close>.
\<close>

fun forEach_supported :: "state \<Rightarrow> val \<Rightarrow> string list \<Rightarrow> bool \<Rightarrow> bool" where
  "forEach_supported s f [] supported = supported"
| "forEach_supported s f (x # xs) supported =
     (if (case findKey s f x of None \<Rightarrow> True | Some k \<Rightarrow> k = [])
      then forEach_supported s f xs True
      else False)"

definition isSupportedOffline :: "state \<Rightarrow> nat \<Rightarrow> bool" where
  "isSupportedOffline s q = forEach_supported s (u_filter (queries s ! q)) unsupportedFilters True"

section \<open>Local evaluation\<close>

text \<open>
  \<^verbatim>\<open>process\<close>, lines 733 to 810: the offline check, the matcher, the removal of
  fields, the sort and the slice.
\<close>

text \<open>
  What \<^verbatim>\<open>process\<close> takes from outside this file: the matcher \<^verbatim>\<open>sift\<close>, the helper
  \<^verbatim>\<open>nested\<close> of \<^verbatim>\<open>./utils\<close>, the constructor \<^verbatim>\<open>RegExp\<close> and the operators \<^verbatim>\<open><\<close> and
  \<^verbatim>\<open>*\<close> of the language on arbitrary values. They are parameters of the model.
\<close>

record ext =
  newRegExp :: "val \<Rightarrow> error + regexp"
  sift :: "state \<Rightarrow> val \<Rightarrow> val list \<Rightarrow> error + val list"
  nested :: "state \<Rightarrow> val \<Rightarrow> string \<Rightarrow> val"
  js_less :: "val \<Rightarrow> val \<Rightarrow> bool"
  js_times :: "val \<Rightarrow> val \<Rightarrow> val"

definition unsupported_message :: string where
  "unsupported_message =
     foldl (\<lambda>message f. message @ '' '' @ f)
       ''This query is not able to run locally. The following filters are not supported locally:''
       unsupportedFilters"

subsection \<open>Removing fields\<close>

text \<open>
  Every key of an item that \<^verbatim>\<open>json.fields\<close> does not list is deleted from the item
  itself. \<^verbatim>\<open>Object.keys\<close> fails on \<^verbatim>\<open>null\<close> and \<^verbatim>\<open>undefined\<close>; the index properties of
  a string cannot be deleted; a deletion from an array would leave a hole, which an array
  value cannot express.
\<close>

definition remove_item_fields :: "state \<Rightarrow> val list \<Rightarrow> val \<Rightarrow> (error + val) \<times> state" where
  "remove_item_fields s fs item =
     (case item of
        VObj a \<Rightarrow>
          (Inr item, s\<lparr>objs := (objs s)[a := filter (\<lambda>(k, v). VStr k \<in> set fs) (obj_at s a)]\<rparr>)
      | VUndef \<Rightarrow> (Inl TypeError, s)
      | VNull \<Rightarrow> (Inl TypeError, s)
      | VStr x \<Rightarrow>
          if list_all (\<lambda>i. VStr (show_nat i) \<in> set fs) [0..<length x] then (Inr item, s)
          else (Inl TypeError, s)
      | VArr xs \<Rightarrow>
          if list_all (\<lambda>i. VStr (show_nat i) \<in> set fs) [0..<length xs] then (Inr item, s)
          else (Inl OutOfModel, s)
      | _ \<Rightarrow> (Inr item, s))"

fun remove_fields :: "state \<Rightarrow> val list \<Rightarrow> val list \<Rightarrow> (error + val list) \<times> state" where
  "remove_fields s fs [] = (Inr [], s)"
| "remove_fields s fs (item # rest) =
     (case remove_item_fields s fs item of
        (Inl e, s1) \<Rightarrow> (Inl e, s1)
      | (Inr i, s1) \<Rightarrow>
          (case remove_fields s1 fs rest of
             (Inl e, s2) \<Rightarrow> (Inl e, s2)
           | (Inr is, s2) \<Rightarrow> (Inr (i # is), s2)))"

subsection \<open>The sort stage\<close>

definition object_keys :: "state \<Rightarrow> val \<Rightarrow> error + string list" where
  "object_keys s v =
     (case v of
        VObj a \<Rightarrow> Inr (keys_of (obj_at s a))
      | VArr xs \<Rightarrow> Inr (map show_nat [0..<length xs])
      | VStr x \<Rightarrow> Inr (map show_nat [0..<length x])
      | VUndef \<Rightarrow> Inl TypeError
      | VNull \<Rightarrow> Inl TypeError
      | _ \<Rightarrow> Inr [])"

text \<open>
  \<^verbatim>\<open>a !== b\<close>: NaN differs from itself; objects are compared by address. Two arrays are
  told apart by their contents here.
\<close>

definition strict_neq :: "val \<Rightarrow> val \<Rightarrow> bool" where
  "strict_neq a b = (a \<noteq> b \<or> a = VNum NaN)"

text \<open>
  The function handed to \<^verbatim>\<open>forEach(fields, ...)\<close> inside the comparator: what it
  returns for one sort field.
\<close>

definition field_result :: "ext \<Rightarrow> state \<Rightarrow> val \<Rightarrow> val \<Rightarrow> val \<Rightarrow> string \<Rightarrow> val" where
  "field_result x s json_sort a b field =
     (let aField = nested x s a field;
          bField = nested x s b field in
      if truthy aField \<and> \<not> truthy bField then VNum (Fin (- 1))
      else if truthy bField \<and> \<not> truthy aField then VNum (Fin 1)
      else if strict_neq aField bField
      then js_times x (VNum (Fin (if js_less x aField bField then - 1 else 1)))
                      (property s field json_sort)
      else VNum (Fin 0))"

text \<open>
  \<^verbatim>\<open>forEach\<close> of lodash calls the function on each element until one call returns
  \<^verbatim>\<open>false\<close>; it hands none of the returned values on. This is the list of the values the
  calls return.
\<close>

fun forEach :: "'a list \<Rightarrow> ('a \<Rightarrow> val) \<Rightarrow> val list" where
  "forEach [] f = []"
| "forEach (x # xs) f = (if f x = VBool False then [f x] else f x # forEach xs f)"

text \<open>
  The comparator handed to \<^verbatim>\<open>data.sort\<close>: it reads the keys of \<^verbatim>\<open>json.sort\<close>, runs
  \<^verbatim>\<open>forEach\<close> over them, and then executes its own only \<^verbatim>\<open>return\<close> statement,
  \<^verbatim>\<open>return 0\<close>.
\<close>

definition comparator :: "ext \<Rightarrow> state \<Rightarrow> val \<Rightarrow> val \<Rightarrow> val \<Rightarrow> error + int" where
  "comparator x s json_sort a b =
     (case object_keys s json_sort of
        Inl e \<Rightarrow> Inl e
      | Inr sort_fields \<Rightarrow>
          (let visited = forEach sort_fields (field_result x s json_sort a b) in Inr 0))"

text \<open>
  \<^verbatim>\<open>Array.prototype.sort\<close> with a comparator, as a stable insertion sort: \<open>x\<close> goes
  before \<open>y\<close> unless the comparator is positive on them. Elements that are
  \<^verbatim>\<open>undefined\<close> go last without a call of the comparator.
\<close>

fun insert_by :: "(val \<Rightarrow> val \<Rightarrow> error + int) \<Rightarrow> val \<Rightarrow> val list \<Rightarrow> error + val list" where
  "insert_by cmp x [] = Inr [x]"
| "insert_by cmp x (y # ys) =
     (case cmp x y of
        Inl e \<Rightarrow> Inl e
      | Inr c \<Rightarrow>
          if c \<le> 0 then Inr (x # y # ys)
          else (case insert_by cmp x ys of Inl e \<Rightarrow> Inl e | Inr zs \<Rightarrow> Inr (y # zs)))"

fun sort_by :: "(val \<Rightarrow> val \<Rightarrow> error + int) \<Rightarrow> val list \<Rightarrow> error + val list" where
  "sort_by cmp [] = Inr []"
| "sort_by cmp (x # xs) =
     (case sort_by cmp xs of Inl e \<Rightarrow> Inl e | Inr ys \<Rightarrow> insert_by cmp x ys)"

definition array_sort :: "(val \<Rightarrow> val \<Rightarrow> error + int) \<Rightarrow> val list \<Rightarrow> error + val list" where
  "array_sort cmp xs =
     (case sort_by cmp (filter (\<lambda>v. v \<noteq> VUndef) xs) of
        Inl e \<Rightarrow> Inl e
      | Inr ys \<Rightarrow> Inr (ys @ filter (\<lambda>v. v = VUndef) xs))"

subsection \<open>Limit and skip\<close>

definition num_add :: "jsnum \<Rightarrow> jsnum \<Rightarrow> jsnum" where
  "num_add a b =
     (case (a, b) of
        (Fin x, Fin y) \<Rightarrow> Fin (x + y)
      | (NaN, _) \<Rightarrow> NaN
      | (_, NaN) \<Rightarrow> NaN
      | (PosInf, NegInf) \<Rightarrow> NaN
      | (NegInf, PosInf) \<Rightarrow> NaN
      | (PosInf, _) \<Rightarrow> PosInf
      | (_, PosInf) \<Rightarrow> PosInf
      | (NegInf, _) \<Rightarrow> NegInf
      | (_, NegInf) \<Rightarrow> NegInf)"

text \<open>
  The position \<^verbatim>\<open>slice\<close> makes of a number for an array of length \<open>len\<close>: truncated
  towards zero, counted from the end when negative, clamped to the array.
\<close>

definition slice_index :: "nat \<Rightarrow> jsnum \<Rightarrow> nat" where
  "slice_index len n =
     (case n of
        NaN \<Rightarrow> 0
      | PosInf \<Rightarrow> len
      | NegInf \<Rightarrow> 0
      | Fin r \<Rightarrow>
          (let i = (if r < 0 then \<lceil>r\<rceil> else \<lfloor>r\<rfloor>) in
           if i < 0 then nat (int len + i) else min (nat i) len))"

definition slice :: "val list \<Rightarrow> jsnum \<Rightarrow> jsnum option \<Rightarrow> val list" where
  "slice xs start final =
     (let k = slice_index (length xs) start;
          e = (case final of None \<Rightarrow> length xs | Some n \<Rightarrow> slice_index (length xs) n)
      in take (e - k) (drop k xs))"

text \<open>
  The setters store numbers only in \<^verbatim>\<open>skip\<close> and in a truthy \<^verbatim>\<open>limit\<close>; the conversion
  of other values to a position is not modelled.
\<close>

definition paginate :: "obj \<Rightarrow> val list \<Rightarrow> error + val" where
  "paginate json xs =
     (case get_prop json ''skip'' of
        VNum k \<Rightarrow>
          if truthy (get_prop json ''limit'') then
            (case get_prop json ''limit'' of
               VNum l \<Rightarrow> Inr (VArr (slice xs k (Some (num_add k l))))
             | _ \<Rightarrow> Inl OutOfModel)
          else Inr (VArr (slice xs k None))
      | _ \<Rightarrow> Inl OutOfModel)"

subsection \<open>process\<close>

text \<open>The field list of the snapshot is an array in every state the setters produce.\<close>

definition process :: "ext \<Rightarrow> state \<Rightarrow> nat \<Rightarrow> val \<Rightarrow> (error + val) \<times> state" where
  "process x s q data =
     (if \<not> isSupportedOffline s q then (Inl (QueryError unsupported_message), s)
      else if truthy data then
        (case data of
           VArr xs \<Rightarrow>
             (case toJSON s q of
                Inl e \<Rightarrow> (Inl e, s)
              | Inr json \<Rightarrow>
                  (case sift x s (get_prop json ''filter'') xs of
                     Inl e \<Rightarrow> (Inl e, s)
                   | Inr ys \<Rightarrow>
                       (case (case get_prop json ''fields'' of
                                VArr fs \<Rightarrow> if fs \<noteq> [] then remove_fields s fs ys else (Inr ys, s)
                              | v \<Rightarrow> if truthy v then (Inl OutOfModel, s) else (Inr ys, s)) of
                          (Inl e, s1) \<Rightarrow> (Inl e, s1)
                        | (Inr zs, s1) \<Rightarrow>
                            (case array_sort (comparator x s1 (get_prop json ''sort'')) zs of
                               Inl e \<Rightarrow> (Inl e, s1)
                             | Inr ordered \<Rightarrow> (paginate json ordered, s1)))))
         | _ \<Rightarrow> (Inl (QueryError ''data argument must be of type: Array.''), s))
      else (Inr data, s))"

section \<open>The public operations as steps\<close>

text \<open>
  One constructor per public operation of the class that can change the state, one for
  the private \<^verbatim>\<open>join\<close>, and \<open>Alloc\<close> for a plain object the caller creates to pass it
  as an argument. The first number is the instance the method is called on. The getters,
  \<^verbatim>\<open>isSupportedOffline\<close> and the serialisers change nothing and are no steps.
\<close>

datatype call =
    New obj
  | Alloc obj
  | SetFields nat val
  | SetFilter nat val
  | SetSort nat val
  | SetLimit nat val
  | SetSkip nat val
  | EqualTo nat string val
  | Contains nat string val
  | ContainsAll nat string val
  | GreaterThan nat string val
  | GreaterThanOrEqualTo nat string val
  | LessThan nat string val
  | LessThanOrEqualTo nat string val
  | NotEqualTo nat string val
  | NotContainedIn nat string val
  | And nat "jarg list"
  | Nor nat "jarg list"
  | Or nat "jarg list"
  | Exists nat string val
  | Mod nat string val val
  | Matches nat string "regexp + val" obj
  | Near nat string val val
  | WithinBox nat string val val
  | WithinPolygon nat string val
  | Size nat string val
  | Ascending nat string
  | Descending nat string
  | AddFilter nat string string val
  | Join nat string "jarg list"
  | Process nat val

definition forget :: "(error + 'a) \<times> state \<Rightarrow> (error + unit) \<times> state" where
  "forget r = (case r of (Inl e, s) \<Rightarrow> (Inl e, s) | (Inr _, s) \<Rightarrow> (Inr (), s))"

fun perform :: "ext \<Rightarrow> state \<Rightarrow> call \<Rightarrow> (error + unit) \<times> state" where
  "perform x s (New options) = forget (constructor s options)"
| "perform x s (Alloc ob) = (Inr (), s\<lparr>objs := objs s @ [ob]\<rparr>)"
| "perform x s (SetFields q v) = set_fields s q v"
| "perform x s (SetFilter q v) = (Inr (), set_filter s q v)"
| "perform x s (SetSort q v) = set_sort s q v"
| "perform x s (SetLimit q v) = set_limit s q v"
| "perform x s (SetSkip q v) = set_skip s q v"
| "perform x s (EqualTo q f v) = forget (equalTo s q f v)"
| "perform x s (Contains q f v) = forget (contains s q f v)"
| "perform x s (ContainsAll q f v) = forget (containsAll s q f v)"
| "perform x s (GreaterThan q f v) = forget (greaterThan_q s q f v)"
| "perform x s (GreaterThanOrEqualTo q f v) = forget (greaterThanOrEqualTo s q f v)"
| "perform x s (LessThan q f v) = forget (lessThan_q s q f v)"
| "perform x s (LessThanOrEqualTo q f v) = forget (lessThanOrEqualTo s q f v)"
| "perform x s (NotEqualTo q f v) = forget (notEqualTo s q f v)"
| "perform x s (NotContainedIn q f v) = forget (notContainedIn s q f v)"
| "perform x s (And q qs) = forget (and_q s q qs)"
| "perform x s (Nor q qs) = forget (nor_q s q qs)"
| "perform x s (Or q qs) = forget (or_q s q qs)"
| "perform x s (Exists q f v) = forget (exists_q s q f v)"
| "perform x s (Mod q f d r) = forget (mod_q s q f d r)"
| "perform x s (Matches q f re options) = forget (matches (newRegExp x) s q f re options)"
| "perform x s (Near q f c m) = forget (near s q f c m)"
| "perform x s (WithinBox q f b u) = forget (withinBox s q f b u)"
| "perform x s (WithinPolygon q f c) = forget (withinPolygon s q f c)"
| "perform x s (Size q f n) = forget (size_q s q f n)"
| "perform x s (Ascending q f) = forget (ascending s q f)"
| "perform x s (Descending q f) = forget (descending s q f)"
| "perform x s (AddFilter q f c v) = forget (addFilter s q f c v)"
| "perform x s (Join q operator qs) = forget (join s q operator qs)"
| "perform x s (Process q data) = forget (process x s q data)"

text \<open>A call is possible when the instances it names exist.\<close>

fun instances_of :: "call \<Rightarrow> nat list" where
  "instances_of (New options) = []"
| "instances_of (Alloc ob) = []"
| "instances_of (SetFields q v) = [q]"
| "instances_of (SetFilter q v) = [q]"
| "instances_of (SetSort q v) = [q]"
| "instances_of (SetLimit q v) = [q]"
| "instances_of (SetSkip q v) = [q]"
| "instances_of (EqualTo q f v) = [q]"
| "instances_of (Contains q f v) = [q]"
| "instances_of (ContainsAll q f v) = [q]"
| "instances_of (GreaterThan q f v) = [q]"
| "instances_of (GreaterThanOrEqualTo q f v) = [q]"
| "instances_of (LessThan q f v) = [q]"
| "instances_of (LessThanOrEqualTo q f v) = [q]"
| "instances_of (NotEqualTo q f v) = [q]"
| "instances_of (NotContainedIn q f v) = [q]"
| "instances_of (And q qs) = q # concat (map (\<lambda>a. case a of AQuery r \<Rightarrow> [r] | AValue v \<Rightarrow> []) qs)"
| "instances_of (Nor q qs) = q # concat (map (\<lambda>a. case a of AQuery r \<Rightarrow> [r] | AValue v \<Rightarrow> []) qs)"
| "instances_of (Or q qs) = q # concat (map (\<lambda>a. case a of AQuery r \<Rightarrow> [r] | AValue v \<Rightarrow> []) qs)"
| "instances_of (Exists q f v) = [q]"
| "instances_of (Mod q f d r) = [q]"
| "instances_of (Matches q f re options) = [q]"
| "instances_of (Near q f c m) = [q]"
| "instances_of (WithinBox q f b u) = [q]"
| "instances_of (WithinPolygon q f c) = [q]"
| "instances_of (Size q f n) = [q]"
| "instances_of (Ascending q f) = [q]"
| "instances_of (Descending q f) = [q]"
| "instances_of (AddFilter q f c v) = [q]"
| "instances_of (Join q operator qs) = q # concat (map (\<lambda>a. case a of AQuery r \<Rightarrow> [r] | AValue v \<Rightarrow> []) qs)"
| "instances_of (Process q data) = [q]"

definition callable :: "state \<Rightarrow> call \<Rightarrow> bool" where
  "callable s c = list_all (\<lambda>q. q < length (queries s)) (instances_of c)"

definition exec :: "ext \<Rightarrow> state \<Rightarrow> call \<Rightarrow> state" where
  "exec x s c = (if callable s c then snd (perform x s c) else s)"

definition run :: "ext \<Rightarrow> state \<Rightarrow> call list \<Rightarrow> state" where
  "run x s cs = foldl (exec x) s cs"

definition init :: state where
  "init = \<lparr>objs = [], queries = []\<rparr>"

text \<open>
  What the setters guarantee of an instance: \<^verbatim>\<open>fields\<close> is an array, \<^verbatim>\<open>sort\<close> an object,
  \<^verbatim>\<open>skip\<close> a number, \<^verbatim>\<open>limit\<close> a number or a falsy value that is no string, and
  \<^verbatim>\<open>_parent\<close> is \<^verbatim>\<open>null\<close>.
\<close>

definition query_ok :: "query \<Rightarrow> bool" where
  "query_ok r =
     (isArray (u_fields r) \<and> isObject (u_sort r) \<and> isNumber (u_skip r)
      \<and> (isNumber (u_limit r) \<or> \<not> truthy (u_limit r)) \<and> \<not> isString (u_limit r)
      \<and> u_parent r = None)"

definition state_ok :: "state \<Rightarrow> bool" where
  "state_ok s = list_all query_ok (queries s)"

section \<open>Reading results\<close>

text \<open>
  The tree a value stands for: every object address is replaced by the object it names.
  The depth bound makes the function total on a heap with a cycle, where it gives \<open>None\<close>.
\<close>

datatype json =
    JUndef
  | JNull
  | JBool bool
  | JNum jsnum
  | JStr string
  | JArr "json list"
  | JObj "(string \<times> json) list"

fun snapshot :: "nat \<Rightarrow> state \<Rightarrow> val \<Rightarrow> json option" where
  "snapshot 0 s v = None"
| "snapshot (Suc d) s VUndef = Some JUndef"
| "snapshot (Suc d) s VNull = Some JNull"
| "snapshot (Suc d) s (VBool b) = Some (JBool b)"
| "snapshot (Suc d) s (VNum n) = Some (JNum n)"
| "snapshot (Suc d) s (VStr x) = Some (JStr x)"
| "snapshot (Suc d) s (VArr xs) = map_option JArr (those (map (snapshot d s) xs))"
| "snapshot (Suc d) s (VObj a) =
     map_option JObj
       (those (map (\<lambda>(k, v). map_option (Pair k) (snapshot d s v)) (obj_at s a)))"

text \<open>Running one operation after another; an error ends the chain.\<close>

definition and_then ::
  "(error + nat) \<times> state \<Rightarrow> (nat \<Rightarrow> state \<Rightarrow> (error + nat) \<times> state) \<Rightarrow> (error + nat) \<times> state" where
  "and_then r f = (case r of (Inl e, s) \<Rightarrow> (Inl e, s) | (Inr q, s) \<Rightarrow> f q s)"

text \<open>The words of the specification about numbers.\<close>

definition finite_number :: "val \<Rightarrow> bool" where
  "finite_number v = (case v of VNum (Fin r) \<Rightarrow> True | _ \<Rightarrow> False)"

definition finite_non_negative :: "val \<Rightarrow> bool" where
  "finite_non_negative v = (case v of VNum (Fin r) \<Rightarrow> 0 \<le> r | _ \<Rightarrow> False)"

text \<open>
  The words of the specification about the offline check: some top-level field of the filter
  has an operator mapping with the given operator as a key.
\<close>

definition top_level_uses :: "state \<Rightarrow> nat \<Rightarrow> string \<Rightarrow> bool" where
  "top_level_uses s q operator =
     (case u_filter (queries s ! q) of
        VObj f \<Rightarrow>
          list_ex (\<lambda>(k, v). case v of VObj m \<Rightarrow> operator \<in> set (keys_of (obj_at s m)) | _ \<Rightarrow> False)
            (obj_at s f)
      | _ \<Rightarrow> False)"

text \<open>
  One choice of the outside parameters, for the examples: a matcher that keeps every
  record, \<^verbatim>\<open>nested\<close> as a single property read, \<^verbatim>\<open>new RegExp\<close> of a pattern string
  without flags, and the two operators on finite numbers.
\<close>

definition sample_ext :: ext where
  "sample_ext =
     \<lparr>newRegExp = (\<lambda>v. case v of
                          VStr p \<Rightarrow> Inr \<lparr>source = p, ignoreCase = False, multiline = False\<rparr>
                        | _ \<Rightarrow> Inl OutOfModel),
      sift = (\<lambda>s f xs. Inr xs),
      nested = (\<lambda>s v k. property s k v),
      js_less = (\<lambda>a b. case (a, b) of (VNum (Fin m), VNum (Fin n)) \<Rightarrow> m < n | _ \<Rightarrow> False),
      js_times = (\<lambda>a b. case (a, b) of
                           (VNum (Fin m), VNum (Fin n)) \<Rightarrow> VNum (Fin (m * n))
                         | _ \<Rightarrow> VNum NaN)\<rparr>"

text \<open>The state after \<^verbatim>\<open>new Query()\<close> on the empty heap.\<close>

definition one_query :: state where
  "one_query =
     \<lparr>objs = [[], []],
      queries = [\<lparr>u_fields = VArr [], u_filter = VObj 0, u_sort = VObj 1, u_limit = VNull,
                 u_skip = VNum (Fin 0), u_parent = None, parent = None\<rparr>]\<rparr>"

text \<open>
  The instance the constructor builds from the own properties of its argument, when none of
  the setters refuses its value.
\<close>

definition built :: "state \<Rightarrow> obj \<Rightarrow> query" where
  "built s options =
     \<lparr>u_fields = (if truthy (option_or options ''fields'' (VArr []))
                  then option_or options ''fields'' (VArr []) else VArr []),
      u_filter = option_or options ''filter'' (VObj (length (objs s))),
      u_sort = (if truthy (option_or options ''sort'' (VObj (Suc (length (objs s)))))
                then option_or options ''sort'' (VObj (Suc (length (objs s))))
                else VObj (Suc (Suc (length (objs s))))),
      u_limit = coerce_number (option_or options ''limit'' VNull),
      u_skip = coerce_number (if option_or options ''skip'' (VNum (Fin 0)) = VUndef then VNum (Fin 0)
                              else option_or options ''skip'' (VNum (Fin 0))),
      u_parent = None, parent = None\<rparr>"

text \<open>
  \<open>grows s s'\<close>: every object and every instance of \<open>s\<close> is in \<open>s'\<close> at its address and
  with its contents; \<open>s'\<close> may hold new ones behind them.
\<close>

definition grows :: "state \<Rightarrow> state \<Rightarrow> bool" where
  "grows s s' = (prefix (objs s) (objs s') \<and> prefix (queries s) (queries s'))"

text \<open>
  A query sorted ascending by \<^verbatim>\<open>a\<close>, and two records \<^verbatim>\<open>{a: 2}\<close> and \<^verbatim>\<open>{a: 1}\<close> at
  the addresses 2 and 3.
\<close>

definition two_records :: state where
  "two_records = run sample_ext init
     [New [], Ascending 0 ''a'', Alloc [(''a'', VNum (Fin 2))], Alloc [(''a'', VNum (Fin 1))]]"

section \<open>Properties\<close>

subsection \<open>A fresh query\<close>

lemma constructor_empty:
  "constructor s [] =
     (Inr (length (queries s)),
      s\<lparr>objs := objs s @ [[], []],
        queries := queries s @
          [\<lparr>u_fields = VArr [], u_filter = VObj (length (objs s)),
            u_sort = VObj (Suc (length (objs s))), u_limit = VNull, u_skip = VNum (Fin 0),
            u_parent = None, parent = None\<rparr>]\<rparr>)"
  by (simp add: constructor_def option_or_def set_fields_def call_depth_def set_filter_def
      set_sort_def set_limit_def set_skip_def upd_query_def blank_query_def nth_append Let_def)

lemma run_new: "run x init [New []] = one_query"
  by (simp add: run_def exec_def callable_def forget_def constructor_empty init_def one_query_def)

lemma one_query_supported: "isSupportedOffline one_query 0"
  by (simp add: one_query_def isSupportedOffline_def unsupportedFilters_def findKey_def
      obj_at_def keys_of_def)

subsection \<open>Where a QueryError of the evaluation can come from\<close>

lemma remove_item_fields_no_QueryError:
  "remove_item_fields s fs item \<noteq> (Inl (QueryError m), s')"
  by (auto simp: remove_item_fields_def split: val.splits)

lemma remove_fields_no_QueryError:
  "remove_fields s fs items \<noteq> (Inl (QueryError m), s')"
proof (induction items arbitrary: s)
  case Nil
  show ?case by simp
next
  case (Cons item rest)
  show ?case
    using Cons.IH remove_item_fields_no_QueryError
    by (auto split: prod.splits sum.splits)
qed

lemma toPlainObject_at_no_QueryError:
  "toPlainObject_at d s q \<noteq> Inl (QueryError m)"
  by (induction d arbitrary: q) (auto split: option.splits)

lemma toJSON_no_QueryError: "toJSON s q \<noteq> Inl (QueryError m)"
  by (simp add: toJSON_def toPlainObject_def toPlainObject_at_no_QueryError)

lemma comparator_no_QueryError: "comparator x s js a b \<noteq> Inl (QueryError m)"
  by (auto simp: comparator_def object_keys_def split: val.splits sum.splits)

lemma insert_by_no_QueryError:
  "(\<And>a b. cmp a b \<noteq> Inl (QueryError m)) \<Longrightarrow> insert_by cmp v xs \<noteq> Inl (QueryError m)"
  by (induction xs) (auto split: sum.splits)

lemma sort_by_no_QueryError:
  "(\<And>a b. cmp a b \<noteq> Inl (QueryError m)) \<Longrightarrow> sort_by cmp xs \<noteq> Inl (QueryError m)"
  by (induction xs) (auto split: sum.splits simp: insert_by_no_QueryError)

lemma array_sort_no_QueryError:
  "(\<And>a b. cmp a b \<noteq> Inl (QueryError m)) \<Longrightarrow> array_sort cmp xs \<noteq> Inl (QueryError m)"
  by (auto simp: array_sort_def sort_by_no_QueryError split: sum.splits)

lemma paginate_no_QueryError: "paginate json xs \<noteq> Inl (QueryError m)"
  by (auto simp: paginate_def split: val.splits)

text \<open>
  Claim C10. On a query that is supported offline, \<^verbatim>\<open>process\<close> hands a falsy input
  (\<^verbatim>\<open>null\<close> and \<^verbatim>\<open>undefined\<close> among them) back unchanged, without an error and without
  touching the state. It raises "data argument must be of type: Array." for every truthy
  input that is no array. On an array, a QueryError can only be one that the matcher
  raised: none of the stages of \<^verbatim>\<open>process\<close> itself raises one.
\<close>

theorem process_guards_data:
  assumes "isSupportedOffline s q"
  shows "(\<not> truthy data \<longrightarrow> process x s q data = (Inr data, s))
       \<and> (truthy data \<and> \<not> isArray data \<longrightarrow>
            process x s q data = (Inl (QueryError ''data argument must be of type: Array.''), s))
       \<and> (isArray data \<and> process x s q data = (Inl (QueryError m), s') \<longrightarrow>
            (\<exists>f xs. sift x s f xs = Inl (QueryError m)))"
proof (intro conjI impI)
  assume "\<not> truthy data"
  then show "process x s q data = (Inr data, s)"
    using assms by (simp add: process_def)
next
  assume "truthy data \<and> \<not> isArray data"
  then show "process x s q data = (Inl (QueryError ''data argument must be of type: Array.''), s)"
    using assms by (cases data) (simp_all add: process_def)
next
  assume a: "isArray data \<and> process x s q data = (Inl (QueryError m), s')"
  then obtain xs where d: "data = VArr xs" by (cases data) simp_all
  show "\<exists>f xs. sift x s f xs = Inl (QueryError m)"
  proof (rule ccontr)
    assume n: "\<nexists>f xs. sift x s f xs = Inl (QueryError m)"
    have "process x s q (VArr xs) \<noteq> (Inl (QueryError m), s')"
      using assms n toJSON_no_QueryError remove_fields_no_QueryError
        array_sort_no_QueryError [OF comparator_no_QueryError] paginate_no_QueryError
      by (auto simp: process_def split: sum.splits prod.splits val.splits if_splits)
    with a d show False by simp
  qed
qed

theorem process_guards_data_witness:
  "isSupportedOffline one_query 0
   \<and> process sample_ext one_query 0 VNull = (Inr VNull, one_query)
   \<and> process sample_ext one_query 0 VUndef = (Inr VUndef, one_query)
   \<and> process sample_ext one_query 0 (VNum (Fin 7)) =
       (Inl (QueryError ''data argument must be of type: Array.''), one_query)"
  using process_guards_data [OF one_query_supported, of VNull sample_ext]
    process_guards_data [OF one_query_supported, of VUndef sample_ext]
    process_guards_data [OF one_query_supported, of "VNum (Fin 7)" sample_ext]
    one_query_supported
  by simp

subsection \<open>Methods on an instance without a parent\<close>

lemma state_ok_parent:
  "state_ok s \<Longrightarrow> q < length (queries s) \<Longrightarrow> u_parent (queries s ! q) = None"
  by (simp add: state_ok_def list_all_length query_ok_def)

lemma state_ok_objs [simp]: "state_ok (s\<lparr>objs := h\<rparr>) = state_ok s"
  by (simp add: state_ok_def)

lemma state_ok_upd:
  assumes "state_ok s" and "q < length (queries s) \<Longrightarrow> query_ok (f (queries s ! q))"
  shows "state_ok (upd_query s q f)"
proof (cases "q < length (queries s)")
  case True
  with assms show ?thesis
    by (simp add: state_ok_def upd_query_def list_all_length nth_list_update)
next
  case False
  with assms show ?thesis
    by (simp add: state_ok_def upd_query_def list_update_beyond)
qed

lemma addFilter_queries: "addFilter s q f c v = (r, s') \<Longrightarrow> queries s' = queries s"
  by (auto simp: addFilter_def split: val.splits)

lemma addFilter_no_QueryError: "addFilter s q f c v \<noteq> (Inl (QueryError m), s')"
  by (auto simp: addFilter_def split: val.splits)

lemma addFilter_objs: "addFilter s q f c v = (Inl e, s') \<Longrightarrow> s' = s"
  by (auto simp: addFilter_def split: val.splits)

lemma set_fields_root:
  "u_parent (queries s ! q) = None \<Longrightarrow>
   set_fields s q v =
     (if isArray (if truthy v then v else VArr [])
      then (Inr (), upd_query s q (\<lambda>r. r\<lparr>u_fields := (if truthy v then v else VArr [])\<rparr>))
      else (Inl (QueryError ''fields must be an Array''), s))"
  by (simp add: set_fields_def call_depth_def Let_def)

lemma set_limit_root:
  "u_parent (queries s ! q) = None \<Longrightarrow>
   set_limit s q v =
     (if truthy (coerce_number v) \<and> \<not> isNumber (coerce_number v)
      then (Inl (QueryError ''limit must be a number''), s)
      else (Inr (), upd_query s q (\<lambda>r. r\<lparr>u_limit := coerce_number v\<rparr>)))"
  by (simp add: set_limit_def call_depth_def Let_def coerce_number_def)

lemma toPlainObject_root:
  "u_parent (queries s ! q) = None \<Longrightarrow>
   toPlainObject s q =
     Inr [(''fields'', u_fields (queries s ! q)), (''filter'', u_filter (queries s ! q)),
          (''sort'', u_sort (queries s ! q)), (''skip'', u_skip (queries s ! q)),
          (''limit'', u_limit (queries s ! q))]"
  by (simp add: toPlainObject_def call_depth_def)

lemma or_q_root: "u_parent (queries s ! q) = None \<Longrightarrow> or_q s q qs = join s q ''$or'' qs"
  by (simp add: or_q_def call_depth_def)

lemma nor_q_root: "u_parent (queries s ! q) = None \<Longrightarrow> nor_q s q qs = join s q ''$nor'' qs"
  by (simp add: nor_q_def call_depth_def)

lemma ascending_root:
  "u_parent (queries s ! q) = None \<Longrightarrow> ascending s q f = sort_direction s q f 1"
  by (simp add: ascending_def call_depth_def)

lemma descending_root:
  "u_parent (queries s ! q) = None \<Longrightarrow> descending s q f = sort_direction s q f (- 1)"
  by (simp add: descending_def call_depth_def)

lemma coerce_number_cases:
  "coerce_number v = v \<or> (\<exists>x. v = VStr x \<and> coerce_number v = VNum (parseFloat x))"
  by (cases v) (simp_all add: coerce_number_def)

lemma coerce_number_not_string [simp]: "\<not> isString (coerce_number v)"
  by (cases v) (simp_all add: coerce_number_def)

lemma isObject_truthy: "isObject v \<Longrightarrow> truthy v"
  by (cases v) simp_all

lemma isArray_truthy: "isArray v \<Longrightarrow> truthy v"
  by (cases v) simp_all


lemma queries_upd_query [simp]: "queries (upd_query s q f) = (queries s)[q := f (queries s ! q)]"
  by (simp add: upd_query_def)

lemma objs_upd_query [simp]: "objs (upd_query s q f) = objs s"
  by (simp add: upd_query_def)

lemma constructor_closed:
  "constructor s options =
     (if \<not> isArray (u_fields (built s options))
      then (Inl (QueryError ''fields must be an Array''), s)
      else if truthy (option_or options ''sort'' (VObj (Suc (length (objs s)))))
              \<and> \<not> isObject (option_or options ''sort'' (VObj (Suc (length (objs s)))))
      then (Inl (QueryError ''sort must an Object''), s)
      else if truthy (u_limit (built s options)) \<and> \<not> isNumber (u_limit (built s options))
      then (Inl (QueryError ''limit must be a number''), s)
      else if \<not> isNumber (u_skip (built s options))
      then (Inl (QueryError ''skip must be a number''), s)
      else (Inr (length (queries s)),
            s\<lparr>objs := objs s @ [[], []] @
                        (if truthy (option_or options ''sort'' (VObj (Suc (length (objs s)))))
                         then [] else [[]]),
              queries := queries s @ [built s options]\<rparr>))"
  by (simp add: constructor_def Let_def set_fields_def set_limit_def call_depth_def set_sort_def
      set_skip_def set_filter_def upd_query_def blank_query_def built_def coerce_number_def
      nth_append)

subsection \<open>What the constructor and the joins leave in place\<close>

lemma grows_refl [simp]: "grows s s"
  by (simp add: grows_def)

lemma grows_trans: "grows a b \<Longrightarrow> grows b c \<Longrightarrow> grows a c"
  by (auto simp: grows_def)

lemma grows_alloc [simp]: "grows s (s\<lparr>objs := objs s @ h\<rparr>)"
  by (simp add: grows_def)

lemma constructor_grows: "constructor s options = (r, s') \<Longrightarrow> grows s s'"
  by (auto simp: constructor_closed grows_def split: if_splits)

lemma built_ok:
  "isArray (u_fields (built s options)) \<Longrightarrow>
   isObject (option_or options ''sort'' (VObj (Suc (length (objs s)))))
     \<or> \<not> truthy (option_or options ''sort'' (VObj (Suc (length (objs s))))) \<Longrightarrow>
   isNumber (u_limit (built s options)) \<or> \<not> truthy (u_limit (built s options)) \<Longrightarrow>
   isNumber (u_skip (built s options)) \<Longrightarrow> query_ok (built s options)"
  by (auto simp: query_ok_def built_def)

lemma constructor_ok:
  "state_ok s \<Longrightarrow> constructor s options = (r, s') \<Longrightarrow> state_ok s'"
  by (auto simp: constructor_closed state_ok_def built_ok split: if_splits)

lemma constructor_new:
  "constructor s options = (Inr n, s') \<Longrightarrow>
     n = length (queries s) \<and> queries s' = queries s @ [built s options]"
  by (auto simp: constructor_closed split: if_splits)

lemma toJSON_ok:
  "state_ok s \<Longrightarrow> q < length (queries s) \<Longrightarrow>
   toJSON s q = Inr [(''fields'', u_fields (queries s ! q)), (''filter'', u_filter (queries s ! q)),
          (''sort'', u_sort (queries s ! q)), (''skip'', u_skip (queries s ! q)),
          (''limit'', u_limit (queries s ! q))]"
  by (simp add: toJSON_def toPlainObject_root state_ok_parent)

lemma join_args_grows: "join_args s qs = (r, s') \<Longrightarrow> grows s s'"
proof (induction qs arbitrary: s r s')
  case Nil
  then show ?case by simp
next
  case (Cons a rest)
  show ?case
    using Cons.prems
    by (auto split: jarg.splits if_splits prod.splits sum.splits
        dest!: constructor_grows Cons.IH intro: grows_trans)
qed

lemma join_args_ok: "state_ok s \<Longrightarrow> join_args s qs = (r, s') \<Longrightarrow> state_ok s'"
proof (induction qs arbitrary: s r s')
  case Nil
  then show ?case by simp
next
  case (Cons a rest)
  show ?case
    using Cons.prems
    by (auto split: jarg.splits if_splits prod.splits sum.splits
        dest: constructor_ok Cons.IH)
qed

lemma open_scope_grows: "open_scope s q fs = (Inl e, s') \<Longrightarrow> grows s s'"
  by (auto simp: open_scope_def constructor_empty grows_def split: if_splits sum.splits)

lemma open_scope_no_QueryError: "open_scope s q fs \<noteq> (Inl (QueryError m), s')"
  by (auto simp: open_scope_def constructor_empty toJSON_no_QueryError split: if_splits sum.splits)

lemma open_scope_ok: "state_ok s \<Longrightarrow> open_scope s q fs = (r, s') \<Longrightarrow> state_ok s'"
  by (auto simp: open_scope_def constructor_empty state_ok_def query_ok_def upd_query_def
      nth_append list_update_append split: if_splits sum.splits)

lemma join_grows: "join s q operator qs = (Inl (QueryError m), s') \<Longrightarrow> grows s s'"
proof -
  assume a: "join s q operator qs = (Inl (QueryError m), s')"
  have g0: "grows s (s\<lparr>objs := objs s @ [[]]\<rparr>)" by simp
  from a have "join_args (s\<lparr>objs := objs s @ [[]]\<rparr>) qs = (Inl (QueryError m), s')"
    using open_scope_no_QueryError
    by (auto simp: join_def Let_def split: prod.splits sum.splits val.splits)
  then have "grows (s\<lparr>objs := objs s @ [[]]\<rparr>) s'" by (rule join_args_grows)
  with g0 show ?thesis by (rule grows_trans)
qed

lemma join_ok:
  assumes ok: "state_ok s" and a: "join s q operator qs = (r, s')"
  shows "state_ok s'"
proof -
  obtain r1 s1 where j: "join_args (s\<lparr>objs := objs s @ [[]]\<rparr>) qs = (r1, s1)"
    by (cases "join_args (s\<lparr>objs := objs s @ [[]]\<rparr>) qs")
  have ok1: "state_ok s1"
    using join_args_ok [OF _ j] ok by simp
  show ?thesis
  proof (cases r1)
    case (Inl e)
    with a j ok1 show ?thesis by (simp add: join_def Let_def)
  next
    case (Inr fs)
    obtain r2 s2 where o: "open_scope s1 q fs = (r2, s2)"
      by (cases "open_scope s1 q fs")
    have ok2: "state_ok s2" using open_scope_ok [OF ok1 o] .
    show ?thesis
      using a j Inr o ok2
      by (auto simp: join_def Let_def split: sum.splits prod.splits val.splits)
  qed
qed

lemma nor_at_grows: "nor_at d s q qs = (Inl (QueryError m), s') \<Longrightarrow> grows s s'"
  by (induction d arbitrary: q)
     (auto split: option.splits val.splits if_splits dest: join_grows)

lemma nor_at_ok: "state_ok s \<Longrightarrow> nor_at d s q qs = (r, s') \<Longrightarrow> state_ok s'"
  by (induction d arbitrary: q)
     (auto split: option.splits val.splits if_splits dest: join_ok)

lemma or_at_grows: "or_at d s q qs = (Inl (QueryError m), s') \<Longrightarrow> grows s s'"
  by (induction d arbitrary: q) (auto split: option.splits dest: join_grows)

lemma or_at_ok: "state_ok s \<Longrightarrow> or_at d s q qs = (r, s') \<Longrightarrow> state_ok s'"
  by (induction d arbitrary: q) (auto split: option.splits dest: join_ok)

lemma set_fields_at_error: "set_fields_at d s q v = (Inl e, s') \<Longrightarrow> s' = s"
  by (induction d arbitrary: q v) (auto simp: Let_def split: option.splits if_splits)

lemma set_limit_at_error: "set_limit_at d s q v = (Inl e, s') \<Longrightarrow> s' = s"
  by (induction d arbitrary: q v) (auto simp: Let_def split: option.splits if_splits)

lemma set_sort_error: "set_sort s q v = (Inl e, s') \<Longrightarrow> s' = s"
  by (auto simp: set_sort_def split: option.splits if_splits)

lemma set_skip_error: "set_skip s q v = (Inl e, s') \<Longrightarrow> s' = s"
  by (auto simp: set_skip_def Let_def split: option.splits if_splits)

lemma sort_direction_no_QueryError: "sort_direction s q f n \<noteq> (Inl (QueryError m), s')"
  by (auto simp: sort_direction_def split: val.splits)

lemma sort_direction_queries: "sort_direction s q f n = (r, s') \<Longrightarrow> queries s' = queries s"
  by (auto simp: sort_direction_def split: val.splits)

lemma ascending_at_no_QueryError: "ascending_at d s q f \<noteq> (Inl (QueryError m), s')"
  by (induction d arbitrary: q s')
     (auto split: option.splits prod.splits sum.splits simp: sort_direction_no_QueryError)

lemma descending_at_no_QueryError: "descending_at d s q f \<noteq> (Inl (QueryError m), s')"
  by (induction d arbitrary: q s')
     (auto split: option.splits prod.splits sum.splits simp: sort_direction_no_QueryError)

lemma compare_filter_error:
  "compare_filter c s q f v = (Inl (QueryError m), s') \<Longrightarrow> s' = s"
  by (auto simp: compare_filter_def addFilter_no_QueryError split: if_splits)

lemma mod_q_error: "mod_q s q f d r = (Inl (QueryError m), s') \<Longrightarrow> s' = s"
  by (auto simp: mod_q_def Let_def addFilter_no_QueryError split: if_splits)

lemma size_q_error: "size_q s q f n = (Inl (QueryError m), s') \<Longrightarrow> s' = s"
  by (auto simp: size_q_def addFilter_no_QueryError split: if_splits)

lemma matches_error: "matches nr s q f re options = (Inl (QueryError m), s') \<Longrightarrow> s' = s"
  by (auto simp: matches_def Let_def addFilter_no_QueryError
      split: sum.splits if_splits prod.splits)

lemma near_error: "near s q f c md = (Inl (QueryError m), s') \<Longrightarrow> s' = s"
  by (auto simp: near_def addFilter_no_QueryError split: val.splits if_splits prod.splits sum.splits)

lemma withinBox_error: "withinBox s q f b u = (Inl (QueryError m), s') \<Longrightarrow> s' = s"
  by (auto simp: withinBox_def addFilter_no_QueryError split: val.splits if_splits)

lemma withinPolygon_error: "withinPolygon s q f c = (Inl (QueryError m), s') \<Longrightarrow> s' = s"
  by (auto simp: withinPolygon_def addFilter_no_QueryError split: val.splits if_splits sum.splits)

lemma process_error: "process x s q data = (Inl (QueryError m), s') \<Longrightarrow> s' = s"
  using remove_fields_no_QueryError array_sort_no_QueryError [OF comparator_no_QueryError]
    paginate_no_QueryError
  by (auto simp: process_def split: if_splits val.splits sum.splits prod.splits)

subsection \<open>A QueryError leaves the state as it was\<close>

lemma forget_Inl: "forget r = (Inl e, s') \<Longrightarrow> r = (Inl e, s')"
  by (auto simp: forget_def split: prod.splits sum.splits)

lemma snd_forget [simp]: "snd (forget r) = snd r"
  by (auto simp: forget_def split: prod.splits sum.splits)

lemma perform_QueryError_grows:
  "perform x s c = (Inl (QueryError m), s') \<Longrightarrow> grows s s'"
proof (cases c)
  case (New options)
  assume a: "perform x s c = (Inl (QueryError m), s')"
  with New show ?thesis by (auto dest!: forget_Inl constructor_grows)
next
  case (And q qs)
  assume a: "perform x s c = (Inl (QueryError m), s')"
  with And show ?thesis by (auto simp: and_q_def dest!: forget_Inl join_grows)
next
  case (Nor q qs)
  assume a: "perform x s c = (Inl (QueryError m), s')"
  with Nor show ?thesis by (auto simp: nor_q_def dest!: forget_Inl nor_at_grows)
next
  case (Or q qs)
  assume a: "perform x s c = (Inl (QueryError m), s')"
  with Or show ?thesis by (auto simp: or_q_def dest!: forget_Inl or_at_grows)
next
  case (Join q operator qs)
  assume a: "perform x s c = (Inl (QueryError m), s')"
  with Join show ?thesis by (auto dest!: forget_Inl join_grows)
qed (auto simp: set_fields_def set_limit_def equalTo_def contains_def containsAll_def
      greaterThan_q_def greaterThanOrEqualTo_def lessThan_q_def lessThanOrEqualTo_def
      notEqualTo_def notContainedIn_def exists_q_def ascending_def descending_def
      addFilter_no_QueryError ascending_at_no_QueryError descending_at_no_QueryError
    dest!: forget_Inl set_fields_at_error set_limit_at_error set_sort_error set_skip_error
      compare_filter_error mod_q_error size_q_error matches_error near_error withinBox_error
      withinPolygon_error process_error)

subsection \<open>The guarantees of the setters hold after every call\<close>

lemma compare_filter_queries: "compare_filter c s q f v = (r, s') \<Longrightarrow> queries s' = queries s"
  by (auto simp: compare_filter_def split: if_splits dest: addFilter_queries)

lemma mod_q_queries: "mod_q s q f d r0 = (r, s') \<Longrightarrow> queries s' = queries s"
  by (auto simp: mod_q_def Let_def split: if_splits dest: addFilter_queries)

lemma size_q_queries: "size_q s q f n = (r, s') \<Longrightarrow> queries s' = queries s"
  by (auto simp: size_q_def split: if_splits dest: addFilter_queries)

lemma matches_queries: "matches nr s q f re options = (r, s') \<Longrightarrow> queries s' = queries s"
  by (auto simp: matches_def Let_def split: sum.splits if_splits prod.splits
      dest!: addFilter_queries)

lemma near_queries: "near s q f c md = (r, s') \<Longrightarrow> queries s' = queries s"
  by (auto simp: near_def split: val.splits if_splits prod.splits sum.splits
      dest!: addFilter_queries)

lemma withinBox_queries: "withinBox s q f b u = (r, s') \<Longrightarrow> queries s' = queries s"
  by (auto simp: withinBox_def split: val.splits if_splits dest!: addFilter_queries)

lemma withinPolygon_queries: "withinPolygon s q f c = (r, s') \<Longrightarrow> queries s' = queries s"
  by (auto simp: withinPolygon_def split: val.splits if_splits sum.splits
      dest!: addFilter_queries)

lemma remove_item_fields_queries:
  "remove_item_fields s fs item = (r, s') \<Longrightarrow> queries s' = queries s"
  by (auto simp: remove_item_fields_def split: val.splits if_splits)

lemma remove_fields_queries: "remove_fields s fs items = (r, s') \<Longrightarrow> queries s' = queries s"
proof (induction items arbitrary: s r s')
  case Nil
  then show ?case by simp
next
  case (Cons item rest)
  show ?case
    using Cons.prems
    by (auto split: prod.splits sum.splits dest!: remove_item_fields_queries Cons.IH)
qed

lemma process_queries: "process x s q data = (r, s') \<Longrightarrow> queries s' = queries s"
  by (auto simp: process_def split: if_splits val.splits sum.splits prod.splits
      dest!: remove_fields_queries)

lemma set_fields_ok:
  assumes "state_ok s" and "q < length (queries s)"
  shows "state_ok (snd (set_fields s q v))"
  using assms
  by (auto simp: set_fields_root state_ok_parent intro!: state_ok_upd)
     (auto simp: state_ok_def list_all_length query_ok_def)

lemma set_limit_ok:
  assumes "state_ok s" and "q < length (queries s)"
  shows "state_ok (snd (set_limit s q v))"
  using assms
  by (auto simp: set_limit_root state_ok_parent intro!: state_ok_upd)
     (auto simp: state_ok_def list_all_length query_ok_def)

lemma set_skip_ok:
  assumes "state_ok s" and "q < length (queries s)"
  shows "state_ok (snd (set_skip s q v))"
  using assms
  by (auto simp: set_skip_def Let_def state_ok_parent coerce_number_def [symmetric]
      intro!: state_ok_upd)
     (auto simp: state_ok_def list_all_length query_ok_def)

lemma set_sort_ok:
  assumes "state_ok s" and "q < length (queries s)"
  shows "state_ok (snd (set_sort s q v))"
  using assms
  by (auto simp: set_sort_def state_ok_parent intro!: state_ok_upd)
     (auto simp: state_ok_def list_all_length query_ok_def)

lemma set_filter_ok:
  assumes "state_ok s" and "q < length (queries s)"
  shows "state_ok (set_filter s q v)"
  using assms
  by (auto simp: set_filter_def intro!: state_ok_upd)
     (auto simp: state_ok_def list_all_length query_ok_def)

lemma exec_ok: "state_ok s \<Longrightarrow> state_ok (exec x s c)"
proof (cases "callable s c")
  case False
  assume "state_ok s"
  with False show ?thesis by (simp add: exec_def)
next
  case True
  assume ok: "state_ok s"
  have "state_ok (snd (perform x s c))"
  proof (cases c)
    case (New options)
    then show ?thesis using ok constructor_ok [of s options] by (cases "constructor s options") auto
  next
    case (And q qs)
    then show ?thesis using ok join_ok [of s q "''$and''" qs]
      by (cases "join s q ''$and'' qs") (auto simp: and_q_def)
  next
    case (Nor q qs)
    then show ?thesis using ok nor_at_ok [of s "call_depth s" q qs]
      by (cases "nor_at (call_depth s) s q qs") (auto simp: nor_q_def)
  next
    case (Or q qs)
    then show ?thesis using ok or_at_ok [of s "call_depth s" q qs]
      by (cases "or_at (call_depth s) s q qs") (auto simp: or_q_def)
  next
    case (Join q operator qs)
    then show ?thesis using ok join_ok [of s q operator qs]
      by (cases "join s q operator qs") auto
  next
    case (SetFields q v)
    then show ?thesis using ok True set_fields_ok by (simp add: callable_def)
  next
    case (SetFilter q v)
    then show ?thesis using ok True set_filter_ok by (simp add: callable_def)
  next
    case (SetSort q v)
    then show ?thesis using ok True set_sort_ok by (simp add: callable_def)
  next
    case (SetLimit q v)
    then show ?thesis using ok True set_limit_ok by (simp add: callable_def)
  next
    case (SetSkip q v)
    then show ?thesis using ok True set_skip_ok by (simp add: callable_def)
  next
    case (Ascending q f)
    then show ?thesis using ok True
      by (cases "sort_direction s q f 1")
         (auto simp: callable_def ascending_root state_ok_parent state_ok_def
            dest!: sort_direction_queries)
  next
    case (Descending q f)
    then show ?thesis using ok True
      by (cases "sort_direction s q f (- 1)")
         (auto simp: callable_def descending_root state_ok_parent state_ok_def
            dest!: sort_direction_queries)
  next
    case (Alloc ob)
    then show ?thesis using ok by simp
  next
    case (EqualTo q f v)
    then show ?thesis using ok
      by (cases "addFilter s q f ''$eq'' v")
         (auto simp: equalTo_def state_ok_def dest!: addFilter_queries)
  next
    case (Contains q f v)
    then show ?thesis using ok
      by (cases "addFilter s q f ''$in'' (wrap_array v)")
         (auto simp: contains_def state_ok_def dest!: addFilter_queries)
  next
    case (ContainsAll q f v)
    then show ?thesis using ok
      by (cases "addFilter s q f ''$all'' (wrap_array v)")
         (auto simp: containsAll_def state_ok_def dest!: addFilter_queries)
  next
    case (GreaterThan q f v)
    then show ?thesis using ok
      by (cases "compare_filter ''$gt'' s q f v")
         (auto simp: greaterThan_q_def state_ok_def dest!: compare_filter_queries)
  next
    case (GreaterThanOrEqualTo q f v)
    then show ?thesis using ok
      by (cases "compare_filter ''$gte'' s q f v")
         (auto simp: greaterThanOrEqualTo_def state_ok_def dest!: compare_filter_queries)
  next
    case (LessThan q f v)
    then show ?thesis using ok
      by (cases "compare_filter ''$lt'' s q f v")
         (auto simp: lessThan_q_def state_ok_def dest!: compare_filter_queries)
  next
    case (LessThanOrEqualTo q f v)
    then show ?thesis using ok
      by (cases "compare_filter ''$lte'' s q f v")
         (auto simp: lessThanOrEqualTo_def state_ok_def dest!: compare_filter_queries)
  next
    case (NotEqualTo q f v)
    then show ?thesis using ok
      by (cases "addFilter s q f ''$ne'' v")
         (auto simp: notEqualTo_def state_ok_def dest!: addFilter_queries)
  next
    case (NotContainedIn q f v)
    then show ?thesis using ok
      by (cases "addFilter s q f ''$nin'' (wrap_array v)")
         (auto simp: notContainedIn_def state_ok_def dest!: addFilter_queries)
  next
    case (Exists q f v)
    then show ?thesis using ok
      by (cases "exists_q s q f v")
         (auto simp: exists_q_def state_ok_def dest!: addFilter_queries)
  next
    case (Mod q f d r)
    then show ?thesis using ok
      by (cases "mod_q s q f d r") (auto simp: state_ok_def dest!: mod_q_queries)
  next
    case (Matches q f re options)
    then show ?thesis using ok
      by (cases "matches (newRegExp x) s q f re options")
         (auto simp: state_ok_def dest!: matches_queries)
  next
    case (Near q f c m)
    then show ?thesis using ok
      by (cases "near s q f c m") (auto simp: state_ok_def dest!: near_queries)
  next
    case (WithinBox q f b u)
    then show ?thesis using ok
      by (cases "withinBox s q f b u") (auto simp: state_ok_def dest!: withinBox_queries)
  next
    case (WithinPolygon q f c)
    then show ?thesis using ok
      by (cases "withinPolygon s q f c") (auto simp: state_ok_def dest!: withinPolygon_queries)
  next
    case (Size q f n)
    then show ?thesis using ok
      by (cases "size_q s q f n") (auto simp: state_ok_def dest!: size_q_queries)
  next
    case (AddFilter q f c v)
    then show ?thesis using ok
      by (cases "addFilter s q f c v") (auto simp: state_ok_def dest!: addFilter_queries)
  next
    case (Process q data)
    then show ?thesis using ok
      by (cases "process x s q data") (auto simp: state_ok_def dest!: process_queries)
  qed
  with True show ?thesis by (simp add: exec_def)
qed

lemma run_ok: "state_ok s \<Longrightarrow> state_ok (run x s cs)"
  by (induction cs arbitrary: s) (simp_all add: run_def exec_ok)

lemma init_ok: "state_ok init"
  by (simp add: state_ok_def init_def)

section \<open>The claims\<close>

lemmas pf_defs =
  parseFloat_def is_space_def is_digit_def digits_val_def scale10_def exponent_part_def

text \<open>
  Claim C9. Whenever a public operation ends in a QueryError, every object and every
  instance that existed before the call is unchanged (the state only \<open>grows\<close> by objects
  and instances the call had created before it failed), so every filter is what it was
  before the failing call. The validations the claim names do fail this way: a comparison
  value that is neither a number nor a string, and a join argument that is no object.
  (The unanchored pattern and the case-insensitivity flag are the subject of C6.)
\<close>

theorem validation_fails_before_mutation:
  "(perform x s c = (Inl (QueryError m), s') \<longrightarrow> grows s s')
   \<and> (\<not> isNumber v \<and> \<not> isString v \<longrightarrow>
        greaterThan_q s q f v = (Inl (QueryError ''You must supply a number or string.''), s)
      \<and> greaterThanOrEqualTo s q f v = (Inl (QueryError ''You must supply a number or string.''), s)
      \<and> lessThan_q s q f v = (Inl (QueryError ''You must supply a number or string.''), s)
      \<and> lessThanOrEqualTo s q f v = (Inl (QueryError ''You must supply a number or string.''), s))
   \<and> (\<not> isObject v \<longrightarrow>
        join s q operator (AValue v # qs) =
          (Inl (QueryError ''query argument must be of type: Kinvey.Query[] or Object[].''),
           s\<lparr>objs := objs s @ [[]]\<rparr>))"
proof (intro conjI impI)
  assume "perform x s c = (Inl (QueryError m), s')"
  then show "grows s s'" by (rule perform_QueryError_grows)
qed (simp_all add: greaterThan_q_def greaterThanOrEqualTo_def lessThan_q_def
      lessThanOrEqualTo_def compare_filter_def join_def Let_def)

theorem validation_fails_before_mutation_witness:
  "perform sample_ext one_query (GreaterThan 0 ''age'' (VBool True)) =
     (Inl (QueryError ''You must supply a number or string.''), one_query)
   \<and> grows one_query one_query
   \<and> \<not> isNumber (VBool True) \<and> \<not> isString (VBool True) \<and> \<not> isObject (VBool True)
   \<and> join one_query 0 ''$and'' [AValue (VBool True)] =
          (Inl (QueryError ''query argument must be of type: Kinvey.Query[] or Object[].''),
           one_query\<lparr>objs := objs one_query @ [[]]\<rparr>)"
  using validation_fails_before_mutation
    [of sample_ext one_query "GreaterThan 0 ''age'' (VBool True)"
        "''You must supply a number or string.''" one_query "VBool True" 0 "''age''"
        "''$and''" "[]"]
  by (simp add: forget_def)

text \<open>
  Claim C8, as the code has it. After any sequence of public operations from the empty
  state, \<^verbatim>\<open>skip\<close> of every instance is a number and \<^verbatim>\<open>limit\<close> is a number or
  falsy. The numbers are those of \<^verbatim>\<open>isNumber\<close>: NaN, an infinity or a negative value
  pass the setters.
\<close>

theorem limit_skip_are_numbers:
  "list_all (\<lambda>r. isNumber (u_skip r) \<and> (isNumber (u_limit r) \<or> \<not> truthy (u_limit r)))
     (queries (run x init cs))"
proof -
  have "state_ok (run x init cs)" by (rule run_ok [OF init_ok])
  then show ?thesis
    by (auto simp: state_ok_def query_ok_def list_all_iff)
qed

theorem limit_skip_are_numbers_witness:
  "isNumber (u_skip (queries (run sample_ext init
       [New [], SetLimit 0 (VStr ''5''), SetSkip 0 (VStr ''2'')]) ! 0))
   \<and> truthy (u_limit (queries (run sample_ext init
       [New [], SetLimit 0 (VStr ''5''), SetSkip 0 (VStr ''2'')]) ! 0))
   \<and> isNumber (u_limit (queries (run sample_ext init
       [New [], SetLimit 0 (VStr ''5''), SetSkip 0 (VStr ''2'')]) ! 0))"
proof -
  have q: "length (queries (run sample_ext init
       [New [], SetLimit 0 (VStr ''5''), SetSkip 0 (VStr ''2'')])) = 1"
    and l: "u_limit (queries (run sample_ext init
       [New [], SetLimit 0 (VStr ''5''), SetSkip 0 (VStr ''2'')]) ! 0) = VNum (Fin 5)"
    by (simp_all add: run_def exec_def callable_def forget_def constructor_empty init_def
        set_skip_def set_limit_def call_depth_def upd_query_def pf_defs)
  show ?thesis
    using limit_skip_are_numbers
      [of sample_ext "[New [], SetLimit 0 (VStr ''5''), SetSkip 0 (VStr ''2'')]"] q l
    by (simp add: list_all_length)
qed

text \<open>
  The claim as stated fails: \<^verbatim>\<open>q.skip = -1\<close> stores a negative \<^verbatim>\<open>skip\<close> and
  \<^verbatim>\<open>q.limit = 'Infinity'\<close> stores a \<^verbatim>\<open>limit\<close> that is no finite number.
\<close>

theorem limit_skip_not_finite_counterexample:
  "u_skip (queries (run sample_ext init
      [New [], SetSkip 0 (VNum (Fin (- 1))), SetLimit 0 (VStr ''Infinity'')]) ! 0) = VNum (Fin (- 1))
   \<and> \<not> finite_non_negative (VNum (Fin (- 1)))
   \<and> u_limit (queries (run sample_ext init
      [New [], SetSkip 0 (VNum (Fin (- 1))), SetLimit 0 (VStr ''Infinity'')]) ! 0) = VNum PosInf
   \<and> \<not> finite_number (VNum PosInf)"
  by (simp add: run_def exec_def callable_def forget_def constructor_empty init_def
      set_skip_def set_limit_def call_depth_def upd_query_def pf_defs
      finite_non_negative_def finite_number_def)

lemma round_trip_ok:
  assumes ok: "state_ok s" and q: "q < length (queries s)"
  shows "\<exists>j s'. toPlainObject s q = Inr j
           \<and> constructor s j = (Inr (length (queries s)), s')
           \<and> u_fields (queries s' ! length (queries s)) = u_fields (queries s ! q)
           \<and> u_filter (queries s' ! length (queries s)) = u_filter (queries s ! q)
           \<and> u_sort (queries s' ! length (queries s)) = u_sort (queries s ! q)
           \<and> u_skip (queries s' ! length (queries s)) = u_skip (queries s ! q)
           \<and> u_limit (queries s' ! length (queries s)) = u_limit (queries s ! q)"
proof -
  let ?r = "queries s ! q"
  have r: "query_ok ?r" using ok q by (simp add: state_ok_def list_all_length)
  have p: "u_parent ?r = None" using r by (simp add: query_ok_def)
  have f: "isArray (u_fields ?r)" and so: "isObject (u_sort ?r)" and k: "isNumber (u_skip ?r)"
    and l: "isNumber (u_limit ?r) \<or> \<not> truthy (u_limit ?r)" and ls: "\<not> isString (u_limit ?r)"
    using r by (simp_all add: query_ok_def)
  have cl: "coerce_number (u_limit ?r) = u_limit ?r"
    using ls by (cases "u_limit ?r") (simp_all add: coerce_number_def)
  have ck: "coerce_number (u_skip ?r) = u_skip ?r" and ku: "u_skip ?r \<noteq> VUndef"
    using k by (cases "u_skip ?r"; simp add: coerce_number_def)+
  let ?j = "[(''fields'', u_fields ?r), (''filter'', u_filter ?r), (''sort'', u_sort ?r),
             (''skip'', u_skip ?r), (''limit'', u_limit ?r)]"
  have j: "toPlainObject s q = Inr ?j" using p by (rule toPlainObject_root)
  have b: "built s ?j = \<lparr>u_fields = u_fields ?r, u_filter = u_filter ?r, u_sort = u_sort ?r,
             u_limit = u_limit ?r, u_skip = u_skip ?r, u_parent = None, parent = None\<rparr>"
    using isArray_truthy [OF f] isObject_truthy [OF so] cl ck ku
    by (simp add: built_def option_or_def)
  have c: "constructor s ?j =
        (Inr (length (queries s)),
         s\<lparr>objs := objs s @ [[], []], queries := queries s @ [built s ?j]\<rparr>)"
    unfolding constructor_closed
    using f so k l isObject_truthy [OF so]
    by (auto simp: b option_or_def)
  show ?thesis
    using j c b by (simp add: nth_append)
qed


text \<open>
  Claim C3. For every instance \<open>q\<close> that any sequence of public operations produces,
  \<^verbatim>\<open>q.toPlainObject()\<close> returns a snapshot, \<^verbatim>\<open>new Query\<close> of that snapshot succeeds,
  and the new instance has the \<^verbatim>\<open>fields\<close>, \<^verbatim>\<open>filter\<close>, \<^verbatim>\<open>sort\<close>, \<^verbatim>\<open>skip\<close> and
  \<^verbatim>\<open>limit\<close> of \<open>q\<close>.
\<close>

theorem round_trip:
  assumes "q < length (queries (run x init cs))"
  shows "\<exists>j s'. toPlainObject (run x init cs) q = Inr j
           \<and> constructor (run x init cs) j = (Inr (length (queries (run x init cs))), s')
           \<and> u_fields (queries s' ! length (queries (run x init cs))) = u_fields (queries (run x init cs) ! q)
           \<and> u_filter (queries s' ! length (queries (run x init cs))) = u_filter (queries (run x init cs) ! q)
           \<and> u_sort (queries s' ! length (queries (run x init cs))) = u_sort (queries (run x init cs) ! q)
           \<and> u_skip (queries s' ! length (queries (run x init cs))) = u_skip (queries (run x init cs) ! q)
           \<and> u_limit (queries s' ! length (queries (run x init cs))) = u_limit (queries (run x init cs) ! q)"
  using round_trip_ok [OF run_ok [OF init_ok] assms] .

theorem round_trip_witness:
  "0 < length (queries (run sample_ext init [New []]))
   \<and> (\<exists>j s'. toPlainObject (run sample_ext init [New []]) 0 = Inr j
         \<and> constructor (run sample_ext init [New []]) j = (Inr 1, s')
         \<and> u_fields (queries s' ! 1) = VArr []
         \<and> u_filter (queries s' ! 1) = VObj 0
         \<and> u_sort (queries s' ! 1) = VObj 1
         \<and> u_skip (queries s' ! 1) = VNum (Fin 0)
         \<and> u_limit (queries s' ! 1) = VNull)"
proof -
  have h: "0 < length (queries (run sample_ext init [New []]))"
    by (simp add: run_new one_query_def)
  show ?thesis
    using h round_trip [OF h] by (simp add: run_new one_query_def)
qed

lemma addFilter_fresh:
  assumes "u_filter (queries s ! q) = VObj f" and "f < length (objs s)" and "objs s ! f = []"
  shows "addFilter s q field c v =
           (Inr q, s\<lparr>objs := (objs s)[f := [(field, VObj (length (objs s)))]] @ [[(c, v)]]\<rparr>)"
  using assms by (simp add: addFilter_def obj_at_def get_prop_def set_prop_def)

lemma snapshot_fresh_filter:
  assumes "f < length h"
  shows "snapshot (Suc (Suc d)) (s\<lparr>objs := h[f := [(field, VObj (length h))]] @ [[(c, v)]]\<rparr>) (VObj f)
         = map_option (\<lambda>j. JObj [(field, JObj [(c, j)])])
             (snapshot d (s\<lparr>objs := h[f := [(field, VObj (length h))]] @ [[(c, v)]]\<rparr>) v)"
  using assms
  by (cases "snapshot d (s\<lparr>objs := h[f := [(field, VObj (length h))]] @ [[(c, v)]]\<rparr>) v")
     (simp_all add: obj_at_def nth_append)


text \<open>
  Claim C7, as the code has it. \<^verbatim>\<open>mod\<close> parses a string argument with \<^verbatim>\<open>parseFloat\<close>
  and leaves any other argument as it is (an omitted remainder is 0). When both results
  are numbers it stores \<^verbatim>\<open>{field: {$mod: [divisor, remainder]}}\<close> (stated for a query
  whose filter is still empty), so \<^verbatim>\<open>mod('x', '5')\<close> gives \<^verbatim>\<open>{x: {$mod: [5, 0]}}\<close>.
  It fails with a QueryError, leaving the state as it was, exactly when one of the two
  results is not of type number. NaN and the infinities are numbers for this check.
\<close>

theorem mod_stores_coerced_numbers:
  "coerce_number (VStr str) = VNum (parseFloat str)
   \<and> (\<not> isString v \<longrightarrow> coerce_number v = v)
   \<and> (coerce_number d = VNum a
        \<and> coerce_number (if r = VUndef then VNum (Fin 0) else r) = VNum b
        \<and> u_filter (queries s ! q) = VObj f \<and> f < length (objs s) \<and> objs s ! f = [] \<longrightarrow>
      (\<exists>s'. mod_q s q field d r = (Inr q, s')
         \<and> snapshot 4 s' (VObj f) = Some (JObj [(field, JObj [(''$mod'', JArr [JNum a, JNum b])])])))
   \<and> ((\<exists>m. mod_q s q field d r = (Inl (QueryError m), s))
        = (\<not> isNumber (coerce_number d)
           \<or> \<not> isNumber (coerce_number (if r = VUndef then VNum (Fin 0) else r))))"
proof (intro conjI impI)
  show "coerce_number (VStr str) = VNum (parseFloat str)" by (simp add: coerce_number_def)
next
  assume "\<not> isString v"
  then show "coerce_number v = v" by (cases v) (simp_all add: coerce_number_def)
next
  assume n: "coerce_number d = VNum a
     \<and> coerce_number (if r = VUndef then VNum (Fin 0) else r) = VNum b
     \<and> u_filter (queries s ! q) = VObj f \<and> f < length (objs s) \<and> objs s ! f = []"
  have s4: "(4::nat) = Suc (Suc (Suc (Suc 0)))" by simp
  have af: "addFilter s q field ''$mod'' (VArr [VNum a, VNum b]) =
      (Inr q, s\<lparr>objs := (objs s)[f := [(field, VObj (length (objs s)))]]
                          @ [[(''$mod'', VArr [VNum a, VNum b])]]\<rparr>)"
    using n by (simp add: addFilter_fresh)
  show "\<exists>s'. mod_q s q field d r = (Inr q, s')
     \<and> snapshot 4 s' (VObj f) = Some (JObj [(field, JObj [(''$mod'', JArr [JNum a, JNum b])])])"
    using n
    by (simp add: mod_q_def Let_def af s4 snapshot_fresh_filter del: snapshot.simps(8))
next
  show "(\<exists>m. mod_q s q field d r = (Inl (QueryError m), s))
      = (\<not> isNumber (coerce_number d)
         \<or> \<not> isNumber (coerce_number (if r = VUndef then VNum (Fin 0) else r)))"
    by (auto simp: mod_q_def Let_def addFilter_no_QueryError)
qed

theorem mod_stores_coerced_numbers_witness:
  "u_filter (queries one_query ! 0) = VObj 0 \<and> 0 < length (objs one_query)
   \<and> objs one_query ! 0 = []
   \<and> coerce_number (VStr ''5'') = VNum (Fin 5)
   \<and> coerce_number (if VUndef = VUndef then VNum (Fin 0) else VUndef) = VNum (Fin 0)
   \<and> (\<exists>s'. mod_q one_query 0 ''x'' (VStr ''5'') VUndef = (Inr 0, s')
         \<and> snapshot 4 s' (VObj 0)
             = Some (JObj [(''x'', JObj [(''$mod'', JArr [JNum (Fin 5), JNum (Fin 0)])])]))
   \<and> (\<exists>m. mod_q one_query 0 ''x'' VNull VUndef = (Inl (QueryError m), one_query))"
proof -
  have h1: "u_filter (queries one_query ! 0) = VObj 0" by (simp add: one_query_def)
  have h2: "0 < length (objs one_query)" by (simp add: one_query_def)
  have h3: "objs one_query ! 0 = []" by (simp add: one_query_def)
  have c1: "coerce_number (VStr ''5'') = VNum (Fin 5)" by (simp add: coerce_number_def pf_defs)
  have c2: "coerce_number (if VUndef = VUndef then VNum (Fin 0) else VUndef) = VNum (Fin 0)"
    by (simp add: coerce_number_def)
  have ex: "\<exists>s'. mod_q one_query 0 ''x'' (VStr ''5'') VUndef = (Inr 0, s')
         \<and> snapshot 4 s' (VObj 0)
             = Some (JObj [(''x'', JObj [(''$mod'', JArr [JNum (Fin 5), JNum (Fin 0)])])])"
    using mod_stores_coerced_numbers
      [where d = "VStr ''5''" and a = "Fin 5" and r = VUndef and b = "Fin 0" and s = one_query
         and q = 0 and f = 0 and field = "''x''"] h1 h2 h3 c1 c2
    by blast
  have n: "\<not> isNumber (coerce_number VNull)" by (simp add: coerce_number_def)
  have er: "\<exists>m. mod_q one_query 0 ''x'' VNull VUndef = (Inl (QueryError m), one_query)"
    using mod_stores_coerced_numbers
      [where d = VNull and r = VUndef and s = one_query and q = 0 and field = "''x''"] n
    by blast
  show ?thesis
    using h1 h2 h3 c1 c2 ex er by blast
qed

text \<open>
  The claim as stated fails: \<^verbatim>\<open>mod('x', 'abc')\<close> coerces the divisor to NaN, which is
  no finite number, and the call succeeds and stores it.
\<close>

theorem mod_accepts_NaN_counterexample:
  "coerce_number (VStr ''abc'') = VNum NaN \<and> \<not> finite_number (VNum NaN)
   \<and> fst (mod_q one_query 0 ''x'' (VStr ''abc'') VUndef) = Inr 0
   \<and> snapshot 4 (snd (mod_q one_query 0 ''x'' (VStr ''abc'') VUndef)) (VObj 0)
       = Some (JObj [(''x'', JObj [(''$mod'', JArr [JNum NaN, JNum (Fin 0)])])])"
  by (simp add: mod_q_def coerce_number_def pf_defs finite_number_def addFilter_def one_query_def
      obj_at_def get_prop_def set_prop_def eval_nat_numeral Let_def)

text \<open>
  Claim C6, as the code has it. With \<open>r\<close> the regular expression the method works on
  (the argument itself, or \<^verbatim>\<open>new RegExp\<close> of it): \<^verbatim>\<open>matches\<close> fails with a QueryError
  and leaves the state as it was when case-insensitivity is requested by the pattern or by
  \<^verbatim>\<open>options.ignoreCase\<close> and \<^verbatim>\<open>options.ignoreCase\<close> is not \<^verbatim>\<open>false\<close>, and when the source
  does not start with \<^verbatim>\<open>^\<close>. An anchored pattern without flags and without options, on a
  query whose filter is still empty, succeeds and stores the whole source, anchor
  included: \<^verbatim>\<open>matches('name', /^foo/)\<close> gives \<^verbatim>\<open>{name: {$regex: '^foo'}}\<close>.
\<close>

theorem matches_validates_pattern:
  assumes "(case regExp of Inl r0 \<Rightarrow> Inr r0 | Inr v \<Rightarrow> nr v) = Inr r"
  shows "((ignoreCase r \<or> truthy (get_prop options ''ignoreCase''))
            \<and> get_prop options ''ignoreCase'' \<noteq> VBool False \<longrightarrow>
          matches nr s q field regExp options
            = (Inl (QueryError ''ignoreCase glag is not supported.''), s))
       \<and> (take 1 (source r) \<noteq> ''^'' \<longrightarrow>
          (\<exists>m. matches nr s q field regExp options = (Inl (QueryError m), s)))
       \<and> (take 1 (source r) = ''^'' \<and> \<not> ignoreCase r \<and> \<not> multiline r \<and> options = []
            \<and> u_filter (queries s ! q) = VObj f \<and> f < length (objs s) \<and> objs s ! f = [] \<longrightarrow>
          (\<exists>s'. matches nr s q field regExp options = (Inr q, s')
             \<and> snapshot 3 s' (VObj f) = Some (JObj [(field, JObj [(''$regex'', JStr (source r))])])))"
proof (intro conjI impI)
  assume "(ignoreCase r \<or> truthy (get_prop options ''ignoreCase''))
            \<and> get_prop options ''ignoreCase'' \<noteq> VBool False"
  then show "matches nr s q field regExp options
            = (Inl (QueryError ''ignoreCase glag is not supported.''), s)"
    using assms by (simp add: matches_def)
next
  assume "take 1 (source r) \<noteq> ''^''"
  then show "\<exists>m. matches nr s q field regExp options = (Inl (QueryError m), s)"
    using assms by (simp add: matches_def)
next
  assume a: "take 1 (source r) = ''^'' \<and> \<not> ignoreCase r \<and> \<not> multiline r \<and> options = []
            \<and> u_filter (queries s ! q) = VObj f \<and> f < length (objs s) \<and> objs s ! f = []"
  have s3: "(3::nat) = Suc (Suc (Suc 0))" by simp
  from a have af: "addFilter s q field ''$regex'' (VStr (source r)) =
      (Inr q, s\<lparr>objs := (objs s)[f := [(field, VObj (length (objs s)))]]
                          @ [[(''$regex'', VStr (source r))]]\<rparr>)"
    by (simp add: addFilter_fresh)
  show "\<exists>s'. matches nr s q field regExp options = (Inr q, s')
             \<and> snapshot 3 s' (VObj f) = Some (JObj [(field, JObj [(''$regex'', JStr (source r))])])"
    using a assms
    by (simp add: matches_def get_prop_def af s3 snapshot_fresh_filter del: snapshot.simps(8))
qed

theorem matches_validates_pattern_witness:
  "(case Inl \<lparr>source = ''^foo'', ignoreCase = False, multiline = False\<rparr> of
      Inl r0 \<Rightarrow> Inr r0 | Inr v \<Rightarrow> newRegExp sample_ext v)
     = Inr \<lparr>source = ''^foo'', ignoreCase = False, multiline = False\<rparr>
   \<and> take 1 ''^foo'' = ''^''
   \<and> u_filter (queries one_query ! 0) = VObj 0 \<and> 0 < length (objs one_query)
   \<and> objs one_query ! 0 = []
   \<and> (\<exists>s'. matches (newRegExp sample_ext) one_query 0 ''name''
              (Inl \<lparr>source = ''^foo'', ignoreCase = False, multiline = False\<rparr>) [] = (Inr 0, s')
         \<and> snapshot 3 s' (VObj 0) = Some (JObj [(''name'', JObj [(''$regex'', JStr ''^foo'')])]))
   \<and> (\<exists>m. matches (newRegExp sample_ext) one_query 0 ''name''
              (Inl \<lparr>source = ''foo'', ignoreCase = False, multiline = False\<rparr>) []
            = (Inl (QueryError m), one_query))
   \<and> matches (newRegExp sample_ext) one_query 0 ''name''
              (Inl \<lparr>source = ''^foo'', ignoreCase = True, multiline = False\<rparr>) []
        = (Inl (QueryError ''ignoreCase glag is not supported.''), one_query)"
proof -
  let ?ok = "\<lparr>source = ''^foo'', ignoreCase = False, multiline = False\<rparr>"
  let ?un = "\<lparr>source = ''foo'', ignoreCase = False, multiline = False\<rparr>"
  let ?ci = "\<lparr>source = ''^foo'', ignoreCase = True, multiline = False\<rparr>"
  have r1: "(case Inl ?ok of Inl r0 \<Rightarrow> Inr r0 | Inr v \<Rightarrow> newRegExp sample_ext v) = Inr ?ok"
    by simp
  have r2: "(case Inl ?un of Inl r0 \<Rightarrow> Inr r0 | Inr v \<Rightarrow> newRegExp sample_ext v) = Inr ?un"
    by simp
  have r3: "(case Inl ?ci of Inl r0 \<Rightarrow> Inr r0 | Inr v \<Rightarrow> newRegExp sample_ext v) = Inr ?ci"
    by simp
  have h: "u_filter (queries one_query ! 0) = VObj 0" "0 < length (objs one_query)"
    "objs one_query ! 0 = []"
    by (simp_all add: one_query_def)
  show ?thesis
    using matches_validates_pattern [OF r1, of "[]" one_query 0 "''name''" 0]
      matches_validates_pattern [OF r2, of "[]" one_query 0 "''name''" 0]
      matches_validates_pattern [OF r3, of "[]" one_query 0 "''name''" 0]
      h
    by (simp add: get_prop_def)
qed


text \<open>
  The claim as stated fails in its last part: the filter \<^verbatim>\<open>matches('name', /^foo/)\<close>
  produces is not \<^verbatim>\<open>{name: {$regex: 'foo'}}\<close>.
\<close>

theorem matches_keeps_anchor_counterexample:
  "snapshot 3 (snd (matches (newRegExp sample_ext) one_query 0 ''name''
       (Inl \<lparr>source = ''^foo'', ignoreCase = False, multiline = False\<rparr>) [])) (VObj 0)
     = Some (JObj [(''name'', JObj [(''$regex'', JStr ''^foo'')])])
   \<and> snapshot 3 (snd (matches (newRegExp sample_ext) one_query 0 ''name''
       (Inl \<lparr>source = ''^foo'', ignoreCase = False, multiline = False\<rparr>) [])) (VObj 0)
     \<noteq> Some (JObj [(''name'', JObj [(''$regex'', JStr ''foo'')])])"
  by (simp add: matches_def addFilter_def one_query_def obj_at_def get_prop_def set_prop_def
      eval_nat_numeral Let_def)

lemmas eval_defs = and_then_def constructor_empty equalTo_def addFilter_def and_q_def join_def
  open_scope_def toJSON_def toPlainObject_def call_depth_def or_q_def nor_q_def upd_query_def
  obj_at_def get_prop_def set_prop_def init_def one_query_def Let_def nth_append

text \<open>
  The part of claim C1 that holds. On a query whose filter is still empty,
  \<^verbatim>\<open>q.equalTo('a', 1).and(q2).or(q3)\<close> returns \<open>q\<close>, and the filter object of \<open>q\<close> then
  reads \<^verbatim>\<open>{$or: [{$and: [{a: {$eq: 1}}, q2.filter]}, q3.filter]}\<close>, with the filter
  objects of \<open>q2\<close> and \<open>q3\<close> themselves as the operands.
\<close>

lemma precedence_example:
  assumes ok: "state_ok s"
    and q: "q < length (queries s)" and q2: "q2 < length (queries s)" and q3: "q3 < length (queries s)"
    and f: "u_filter (queries s ! q) = VObj f" "f < length (objs s)" "objs s ! f = []"
  shows "\<exists>s'. and_then (equalTo s q ''a'' (VNum (Fin 1)))
                (\<lambda>r s1. and_then (and_q s1 r [AQuery q2]) (\<lambda>r s2. or_q s2 r [AQuery q3]))
              = (Inr q, s')
           \<and> u_filter (queries s' ! q) = VObj f
           \<and> (\<exists>c2 c1 m.
                 obj_at s' f = [(''$or'', VArr [VObj c2, u_filter (queries s ! q3)])]
               \<and> obj_at s' c2 = [(''$and'', VArr [VObj c1, u_filter (queries s ! q2)])]
               \<and> obj_at s' c1 = [(''a'', VObj m)]
               \<and> obj_at s' m = [(''$eq'', VNum (Fin 1))])"
proof -
  have p: "u_parent (queries s ! q) = None" "u_parent (queries s ! q2) = None"
    "u_parent (queries s ! q3) = None"
    using ok q q2 q3 by (simp_all add: state_ok_parent)
  let ?n = "length (objs s)"
  let ?s1 = "s\<lparr>objs := (objs s)[f := [(''a'', VObj ?n)]] @ [[(''$eq'', VNum (Fin 1))]]\<rparr>"
  have e1: "equalTo s q ''a'' (VNum (Fin 1)) = (Inr q, ?s1)"
    using f by (simp add: equalTo_def addFilter_fresh)
  let ?s2 = "s\<lparr>objs := (objs s)[f := [(''$and'', VArr [VObj (Suc ?n), u_filter (queries s ! q2)])]]
                          @ [[(''$eq'', VNum (Fin 1))], [(''a'', VObj ?n)]]\<rparr>"
  have e2: "and_q ?s1 q [AQuery q2] = (Inr q, ?s2)"
    using f p
    by (simp add: and_q_def join_def Let_def toJSON_def toPlainObject_def call_depth_def
        open_scope_def get_prop_def obj_at_def nth_append list_update_append)
  let ?s3 = "s\<lparr>objs := (objs s)[f := [(''$or'', VArr [VObj (Suc (Suc ?n)), u_filter (queries s ! q3)])]]
                          @ [[(''$eq'', VNum (Fin 1))], [(''a'', VObj ?n)],
                             [(''$and'', VArr [VObj (Suc ?n), u_filter (queries s ! q2)])]]\<rparr>"
  have e3: "or_q ?s2 q [AQuery q3] = (Inr q, ?s3)"
    using f p
    by (simp add: or_q_def join_def Let_def toJSON_def toPlainObject_def call_depth_def
        open_scope_def get_prop_def obj_at_def nth_append list_update_append)
  have r: "and_then (equalTo s q ''a'' (VNum (Fin 1)))
                (\<lambda>r s1. and_then (and_q s1 r [AQuery q2]) (\<lambda>r s2. or_q s2 r [AQuery q3]))
              = (Inr q, ?s3)"
    by (simp add: and_then_def e1 e2 e3)
  have o: "obj_at ?s3 f = [(''$or'', VArr [VObj (Suc (Suc ?n)), u_filter (queries s ! q3)])]"
    "obj_at ?s3 (Suc (Suc ?n)) = [(''$and'', VArr [VObj (Suc ?n), u_filter (queries s ! q2)])]"
    "obj_at ?s3 (Suc ?n) = [(''a'', VObj ?n)]"
    "obj_at ?s3 ?n = [(''$eq'', VNum (Fin 1))]"
    using f by (simp_all add: obj_at_def nth_append)
  show ?thesis
    using r o f by auto
qed

text \<open>
  Claim C1, the code at a failing input. \<^verbatim>\<open>q.equalTo('a', 1).and().equalTo('b', 2).or(q3)\<close>:
  the query that \<^verbatim>\<open>and()\<close> returns has \<^verbatim>\<open>_parent\<close> \<^verbatim>\<open>null\<close>, so its \<^verbatim>\<open>or\<close> joins
  inside it, and the filter of \<open>q\<close> reads
  \<^verbatim>\<open>{$and: [{a: {$eq: 1}}, {$or: [{b: {$eq: 2}}, {}]}]}\<close>: the OR is below the AND.
\<close>

theorem or_after_scoped_and_lands_inside_and:
  "fst (and_then (constructor init []) (\<lambda>q s.
        and_then (constructor s []) (\<lambda>q3 s.
        and_then (equalTo s q ''a'' (VNum (Fin 1))) (\<lambda>r s.
        and_then (and_q s r []) (\<lambda>c s.
        and_then (equalTo s c ''b'' (VNum (Fin 2))) (\<lambda>c s.
        or_q s c [AQuery q3])))))) = Inr 2
   \<and> snapshot 8 (snd (and_then (constructor init []) (\<lambda>q s.
        and_then (constructor s []) (\<lambda>q3 s.
        and_then (equalTo s q ''a'' (VNum (Fin 1))) (\<lambda>r s.
        and_then (and_q s r []) (\<lambda>c s.
        and_then (equalTo s c ''b'' (VNum (Fin 2))) (\<lambda>c s.
        or_q s c [AQuery q3]))))))) (VObj 0)
     = Some (JObj [(''$and'',
               JArr [JObj [(''a'', JObj [(''$eq'', JNum (Fin 1))])],
                     JObj [(''$or'',
                       JArr [JObj [(''b'', JObj [(''$eq'', JNum (Fin 2))])], JObj []])]])])"
  by (simp add: eval_defs eval_nat_numeral)

text \<open>
  Claim C2, the code at a failing input. \<^verbatim>\<open>c = q.or()\<close> returns a new instance whose
  property \<^verbatim>\<open>parent\<close> is \<open>q\<close> and whose \<^verbatim>\<open>_parent\<close> is \<^verbatim>\<open>null\<close>. After
  \<^verbatim>\<open>c.limit = 5\<close> and \<^verbatim>\<open>c.ascending('x')\<close> the limit and the sort entry are in
  \<open>c\<close>; the limit of \<open>q\<close> is still \<^verbatim>\<open>null\<close> and its sort is still empty.
\<close>

theorem scope_child_keeps_own_state:
  "fst (or_q one_query 0 []) = Inr 1
   \<and> parent (queries (run sample_ext init
         [New [], Or 0 [], SetLimit 1 (VNum (Fin 5)), Ascending 1 ''x'']) ! 1) = Some 0
   \<and> u_parent (queries (run sample_ext init
         [New [], Or 0 [], SetLimit 1 (VNum (Fin 5)), Ascending 1 ''x'']) ! 1) = None
   \<and> u_limit (queries (run sample_ext init
         [New [], Or 0 [], SetLimit 1 (VNum (Fin 5)), Ascending 1 ''x'']) ! 1) = VNum (Fin 5)
   \<and> u_limit (queries (run sample_ext init
         [New [], Or 0 [], SetLimit 1 (VNum (Fin 5)), Ascending 1 ''x'']) ! 0) = VNull
   \<and> snapshot 2 (run sample_ext init
         [New [], Or 0 [], SetLimit 1 (VNum (Fin 5)), Ascending 1 ''x''])
        (u_sort (queries (run sample_ext init
         [New [], Or 0 [], SetLimit 1 (VNum (Fin 5)), Ascending 1 ''x'']) ! 1))
       = Some (JObj [(''x'', JNum (Fin 1))])
   \<and> snapshot 2 (run sample_ext init
         [New [], Or 0 [], SetLimit 1 (VNum (Fin 5)), Ascending 1 ''x''])
        (u_sort (queries (run sample_ext init
         [New [], Or 0 [], SetLimit 1 (VNum (Fin 5)), Ascending 1 ''x'']) ! 0))
       = Some (JObj [])"
  by (simp add: run_def exec_def callable_def forget_def eval_defs set_limit_def
      ascending_def sort_direction_def eval_nat_numeral)

lemma two_records_eq:
  "two_records =
     \<lparr>objs = [[], [(''a'', VNum (Fin 1))], [(''a'', VNum (Fin 2))], [(''a'', VNum (Fin 1))]],
      queries = [\<lparr>u_fields = VArr [], u_filter = VObj 0, u_sort = VObj 1, u_limit = VNull,
                 u_skip = VNum (Fin 0), u_parent = None, parent = None\<rparr>]\<rparr>"
  by (simp add: two_records_def run_def exec_def callable_def forget_def eval_defs
      ascending_def sort_direction_def)

lemma comparator_zero: "comparator x s js a b = Inr c \<Longrightarrow> c = 0"
  by (auto simp: comparator_def Let_def split: sum.splits)

text \<open>
  Claim C4, the code at a failing input. For the records \<^verbatim>\<open>{a: 2}\<close> and \<^verbatim>\<open>{a: 1}\<close> and
  the sort \<^verbatim>\<open>{a: 1}\<close>, the function run for the field \<^verbatim>\<open>a\<close> returns 1 (the first record
  belongs after the second), the comparator returns 0, and \<^verbatim>\<open>process\<close> returns the two
  records in the order they came in.
\<close>

theorem comparator_discards_field_result:
  "field_result sample_ext two_records (VObj 1) (VObj 2) (VObj 3) ''a'' = VNum (Fin 1)
   \<and> comparator sample_ext two_records (VObj 1) (VObj 2) (VObj 3) = Inr 0
   \<and> fst (process sample_ext two_records 0 (VArr [VObj 2, VObj 3])) = Inr (VArr [VObj 2, VObj 3])"
  by (simp add: two_records_eq field_result_def comparator_def object_keys_def sample_ext_def
      property_def obj_at_def get_prop_def strict_neq_def keys_of_def process_def
      isSupportedOffline_def unsupportedFilters_def findKey_def toJSON_def toPlainObject_def
      call_depth_def array_sort_def paginate_def slice_def slice_index_def Let_def)

text \<open>
  Claim C5, the code at a failing input. After \<^verbatim>\<open>near('', [1, 2])\<close> the top-level field
  with the empty name has \<^verbatim>\<open>$nearSphere\<close> in its operator mapping, and
  \<^verbatim>\<open>isSupportedOffline()\<close> returns \<^verbatim>\<open>true\<close>: \<^verbatim>\<open>findKey\<close> returns the key, and the
  negation of the empty string is \<^verbatim>\<open>true\<close>.
\<close>

theorem empty_field_name_hides_nearSphere:
  "fst (near one_query 0 [] (VArr [VNum (Fin 1), VNum (Fin 2)]) VUndef) = Inr 0
   \<and> top_level_uses (snd (near one_query 0 [] (VArr [VNum (Fin 1), VNum (Fin 2)]) VUndef)) 0
        ''$nearSphere''
   \<and> isSupportedOffline (snd (near one_query 0 [] (VArr [VNum (Fin 1), VNum (Fin 2)]) VUndef)) 0"
  by (simp add: near_def nth_or_undef_def addFilter_def one_query_def obj_at_def get_prop_def
      set_prop_def top_level_uses_def keys_of_def isSupportedOffline_def unsupportedFilters_def
      findKey_def property_def)

text \<open>
  The two examples of claim C5 hold: \<^verbatim>\<open>near('loc', [1, 2])\<close> on a fresh query makes
  the check \<^verbatim>\<open>false\<close>, and the same call on the query that \<^verbatim>\<open>or()\<close> returned leaves
  the check of the outer query \<^verbatim>\<open>true\<close>.
\<close>

lemma offline_check_examples:
  "\<not> isSupportedOffline
        (snd (near one_query 0 ''loc'' (VArr [VNum (Fin 1), VNum (Fin 2)]) VUndef)) 0
   \<and> fst (and_then (or_q one_query 0 [])
          (\<lambda>c s. near s c ''loc'' (VArr [VNum (Fin 1), VNum (Fin 2)]) VUndef)) = Inr 1
   \<and> isSupportedOffline
        (snd (and_then (or_q one_query 0 [])
          (\<lambda>c s. near s c ''loc'' (VArr [VNum (Fin 1), VNum (Fin 2)]) VUndef))) 0
   \<and> snapshot 6
        (snd (and_then (or_q one_query 0 [])
          (\<lambda>c s. near s c ''loc'' (VArr [VNum (Fin 1), VNum (Fin 2)]) VUndef))) (VObj 0)
       = Some (JObj [(''$or'',
            JArr [JObj [],
                  JObj [(''loc'', JObj [(''$nearSphere'', JArr [JNum (Fin 1), JNum (Fin 2)])])]])])"
  by (simp add: eval_defs near_def nth_or_undef_def isSupportedOffline_def unsupportedFilters_def
      findKey_def property_def keys_of_def eval_nat_numeral)

end
